theory Spec2Isabelle
  imports Complex_Main "HOL-Library.Multiset" "HOL-Library.List_Lexorder" "HOL-Library.Char_ord"
begin

section \<open>Numbers, exceptions and simulator results\<close>

text \<open>
  JavaScript numbers are modelled by exact rationals: \<open>Math.floor\<close>, \<open>Math.ceil\<close> and
  \<open>Math.round\<close> are the exact integer parts, and the rounding of IEEE doubles is not part
  of the model. A value that can be \<open>NaN\<close> where the code tests for it is an \<open>option\<close>.
  A thrown exception is the left summand of a result; its message is kept up to the
  interpolated numbers.
\<close>

datatype exn = Error string | TypeError string | GraphInterrupt

fun message :: "exn \<Rightarrow> string" where
  "message (Error m) = m"
| "message (TypeError m) = m"
| "message GraphInterrupt = ''''"

definition Math_floor :: "rat \<Rightarrow> rat" where
  "Math_floor x = of_int \<lfloor>x\<rfloor>"

definition Math_ceil :: "rat \<Rightarrow> rat" where
  "Math_ceil x = of_int \<lceil>x\<rceil>"

definition Math_round :: "rat \<Rightarrow> int" where
  "Math_round x = \<lfloor>x + 1 / 2\<rfloor>"

text \<open>
  The three fields of a simulation result that the gas code reads, after \<open>parseInt\<close>.
\<close>

record simulation =
  gas_unit_price :: int
  gas_used :: int
  max_gas_amount :: int

record gas_estimation =
  totalGasCostInAPT :: rat
  maxGasCostInAPT :: rat

section \<open>Gas estimation\<close>

text \<open>
  \<open>getNetworkGasEstimation\<close>: the argument is the outcome of building and simulating the
  trivial self-transfer; any exception there gives the fixed defaults.
\<close>

definition getNetworkGasEstimation :: "exn + simulation \<Rightarrow> gas_estimation" where
  "getNetworkGasEstimation simulated =
     (case simulated of
        Inl _ \<Rightarrow> \<lparr>totalGasCostInAPT = 5 / 1000, maxGasCostInAPT = 1 / 100\<rparr>
      | Inr simulationResult \<Rightarrow>
          (let gasUnitPrice = of_int (gas_unit_price simulationResult);
               maxGasAmount = of_int (max_gas_amount simulationResult);
               estimatedGasUsed = of_int (gas_used simulationResult);
               estimatedMaxGas = min (Math_ceil (maxGasAmount * (12 / 10))) 50000;
               totalGasCost = gasUnitPrice * estimatedGasUsed;
               maxGasCost = gasUnitPrice * estimatedMaxGas;
               totalGasCostInAPT = totalGasCost / 100000000;
               maxGasCostInAPT = maxGasCost / 100000000;
               cappedTotalGas = min totalGasCostInAPT (5 / 100);
               cappedMaxGas = min maxGasCostInAPT (1 / 10)
           in \<lparr>totalGasCostInAPT = cappedTotalGas, maxGasCostInAPT = cappedMaxGas\<rparr>))"

text \<open>
  \<open>estimateSwapGas\<close>: \<open>simulationPool\<close> is \<open>pools[0]\<close>; \<open>swapSimulated\<close> is the outcome of
  building the selected adapter's transaction and simulating it; \<open>networkSimulated\<close> is the
  outcome the baseline estimation would see.
\<close>

definition estimateSwapGas ::
  "'p option \<Rightarrow> exn + simulation \<Rightarrow> exn + simulation \<Rightarrow> gas_estimation" where
  "estimateSwapGas simulationPool swapSimulated networkSimulated =
     (case simulationPool of
        None \<Rightarrow> getNetworkGasEstimation networkSimulated
      | Some _ \<Rightarrow>
          (case swapSimulated of
             Inl _ \<Rightarrow> getNetworkGasEstimation networkSimulated
           | Inr simulationResult \<Rightarrow>
               (let gasUnitPrice = of_int (gas_unit_price simulationResult);
                    gasUsed = of_int (gas_used simulationResult);
                    maxGasAmount = of_int (max_gas_amount simulationResult);
                    totalGasCost = gasUnitPrice * gasUsed;
                    maxGasCost = gasUnitPrice * maxGasAmount;
                    totalGasCostInAPT = totalGasCost / 100000000;
                    maxGasCostInAPT = maxGasCost / 100000000;
                    cappedTotalGas = min totalGasCostInAPT (5 / 100);
                    cappedMaxGas = min maxGasCostInAPT (1 / 10)
                in \<lparr>totalGasCostInAPT = cappedTotalGas, maxGasCostInAPT = cappedMaxGas\<rparr>)))"

text \<open>
  The gas estimate of \<open>prepareTransferNode\<close>, computed inline from the simulation of the
  built transfer.
\<close>

definition transferGasEstimation :: "simulation \<Rightarrow> gas_estimation" where
  "transferGasEstimation simulationResult =
     (let gasUnitPrice = of_int (gas_unit_price simulationResult);
          gasUsed = of_int (gas_used simulationResult);
          maxGasAmount = of_int (max_gas_amount simulationResult);
          totalGasCost = gasUnitPrice * gasUsed;
          maxGasCost = gasUnitPrice * maxGasAmount;
          totalGasCostInAPT = totalGasCost / 100000000;
          maxGasCostInAPT = maxGasCost / 100000000
      in \<lparr>totalGasCostInAPT = totalGasCostInAPT, maxGasCostInAPT = maxGasCostInAPT\<rparr>)"

section \<open>The path-routed adapter's pricing\<close>

text \<open>\<open>PancakeSwapService.getAmountOut\<close>.\<close>

definition getAmountOut :: "rat \<Rightarrow> rat \<Rightarrow> rat \<Rightarrow> exn + rat" where
  "getAmountOut amount_in reserve_in reserve_out =
     (if amount_in \<le> 0 then Inl (Error ''ERROR_INSUFFICIENT_INPUT_AMOUNT'')
      else if reserve_in \<le> 0 \<or> reserve_out \<le> 0 then Inl (Error ''ERROR_INSUFFICIENT_LIQUIDITY'')
      else
        (let amount_in_with_fee = amount_in * (9975 / 10000);
             numerator = amount_in_with_fee * reserve_out;
             denominator = reserve_in * 1 + amount_in_with_fee
         in Inr (Math_floor (numerator / denominator))))"

section \<open>Dynamic values, strings\<close>

text \<open>
  A property that holds a string, an object with an optional string property \<open>inner\<close>, or
  nothing. \<open>inner\<close> is \<open>x?.inner\<close>; \<open>truthy\<close> is JavaScript's truthiness; \<open>js_or\<close> is a chain
  \<open>a || b || ... || d\<close>, which yields its first truthy operand and otherwise the last one.
\<close>

datatype tokref = TUndefined | TString string | TObject "string option"

fun inner :: "tokref \<Rightarrow> tokref" where
  "inner (TObject (Some s)) = TString s"
| "inner _ = TUndefined"

fun truthy :: "tokref \<Rightarrow> bool" where
  "truthy TUndefined = False"
| "truthy (TString s) = (s \<noteq> [])"
| "truthy (TObject _) = True"

fun js_or :: "tokref list \<Rightarrow> tokref \<Rightarrow> tokref" where
  "js_or [] d = d"
| "js_or (x # xs) d = (if truthy x then x else js_or xs d)"

text \<open>
  A nullable string is a \<open>string option\<close>: \<open>None\<close> is \<open>null\<close> or \<open>undefined\<close>.
  \<open>or_empty\<close> is \<open>a || ""\<close>.
\<close>

definition or_empty :: "string option \<Rightarrow> string" where
  "or_empty a = (case a of None \<Rightarrow> [] | Some s \<Rightarrow> s)"

text \<open>\<open>toLowerCase\<close> on the ASCII letters (addresses are ASCII).\<close>

definition lower_char :: "char \<Rightarrow> char" where
  "lower_char c =
     (if CHR ''A'' \<le> c \<and> c \<le> CHR ''Z'' then char_of (of_char c + (32 :: nat)) else c)"

definition toLowerCase :: "string \<Rightarrow> string" where
  "toLowerCase s = map lower_char s"

text \<open>
  \<open>x.toLowerCase()\<close> on a dynamic value: a string has the method, anything else raises
  a \<open>TypeError\<close>.
\<close>

fun ref_toLowerCase :: "tokref \<Rightarrow> exn + string" where
  "ref_toLowerCase (TString s) = Inr (toLowerCase s)"
| "ref_toLowerCase _ = Inl (TypeError ''toLowerCase is not a function'')"

text \<open>\<open>s.includes(t)\<close>.\<close>

fun str_includes :: "string \<Rightarrow> string \<Rightarrow> bool" where
  "str_includes [] t = (t = [])"
| "str_includes (c # s) t = (take (length t) (c # s) = t \<or> str_includes s t)"

text \<open>
  \<open>[a, b].sort().join(",")\<close>: the default sort orders strings by code unit and puts
  \<open>undefined\<close> last; \<open>join\<close> prints \<open>undefined\<close> as the empty string.
\<close>

definition sort_join :: "string option \<Rightarrow> string option \<Rightarrow> string" where
  "sort_join a b =
     (case (a, b) of
        (None, None) \<Rightarrow> '',''
      | (Some x, None) \<Rightarrow> x @ '',''
      | (None, Some y) \<Rightarrow> y @ '',''
      | (Some x, Some y) \<Rightarrow> (if x \<le> y then x @ '','' @ y else y @ '','' @ x))"

section \<open>Data model\<close>

text \<open>
  \<open>DexName\<close>: the enumeration itself is declared outside the sources at hand; the three
  members are the ones \<open>DEXFactory\<close> names, and any other catalogue name is \<open>OtherDex\<close>.
\<close>

datatype DexName = HYPERION | PANCAKESWAP | CELLANA | OtherDex string

record DexFunction =
  functionType :: string
  functionName :: string
  isActive :: bool

record DexInfo =
  name :: DexName
  methodAddress :: string
  dex_functions :: "DexFunction list"

record router =
  wrapFrom :: string
  wrapTo :: string
  stable :: bool
  poolAddress :: string

text \<open>
  \<open>Pool\<close>, with the adapter-specific properties that the workflow and the adapters read.
  \<open>routers\<close> is \<open>pool.routers || []\<close>.
\<close>

record Pool =
  pool_id :: tokref
  dex :: DexInfo
  tokenA :: tokref
  tokenB :: tokref
  estimatedOutput :: "rat option"
  minAmountOut :: "rat option"
  fee :: "rat option"
  token_a :: tokref
  token_b :: tokref
  token_x :: tokref
  token_y :: tokref
  fa_coin_x_metadata :: tokref
  fa_coin_y_metadata :: tokref
  fa_coin_x_address :: tokref
  fa_coin_y_address :: tokref
  routeType :: "string option"
  routePath :: "string list option"
  routers :: "router list"

record AmountEstimation =
  est_estimatedOutput :: rat
  est_minAmountOut :: rat
  est_slippage :: rat

text \<open>
  \<open>SwapRequest\<close>. \<open>amountIn\<close> is the number that \<open>validateSwapAmount\<close> obtains from the
  field (\<open>parseFloat\<close> of a string, the number itself otherwise); \<open>None\<close> is \<open>NaN\<close>.
\<close>

record SwapRequest =
  faAddressIn :: "string option"
  faAddressOut :: "string option"
  tokenAddressIn :: "string option"
  tokenAddressOut :: "string option"
  amountIn :: "rat option"
  address :: string
  slippage :: "rat option"

text \<open>
  One row of \<open>getAccountCoinsData\<close>: \<open>amount\<close> is the ledger's integer amount in the
  asset's smallest unit when the field is present, \<open>decimals\<close> is \<open>metadata?.decimals\<close>.
\<close>

record TokenData =
  amount :: "int option"
  decimals :: "nat option"
  token_standard :: "string option"

record PreparedSwapTransaction =
  swapAmount :: int
  accountAddress :: string
  prep_decimals :: nat
  tokenData :: TokenData
  gasEstimation :: gas_estimation

datatype SwapPhase = Preparing | FindPool | Executing | Completed | ErrorPhase

record SwapResult =
  success :: bool
  result_error :: "string option"
  result_message :: string
  transactionHash :: "string option"
  amountOut :: "rat option"
  result_minAmountOut :: "rat option"

record SwapState =
  phase :: SwapPhase
  request :: "SwapRequest option"
  preparedTransaction :: "PreparedSwapTransaction option"
  pools :: "Pool list option"
  selectedPool :: "Pool option"
  result :: "SwapResult option"
  error :: "string option"
  swapTool_id :: string

section \<open>The ledger and the exchanges' services, as seen by the adapters\<close>

text \<open>
  The answers of the external collaborators are parameters. Each call either throws or
  yields the value the adapter extracts from the response:
  \<^item> \<open>hyperion_view_pools\<close>: the pool-list view call, yielding \<open>result[0]\<close> when that is an
    array and the empty list otherwise;
  \<^item> \<open>hyperion_get_amount_out\<close>: \<open>pool_v3::get_amount_out\<close>, yielding \<open>Number(result[0])\<close>;
  \<^item> \<open>pancake_getReserves\<close>: \<open>getReserves\<close> (cache and HTTP lookup), yielding
    \<open>(reserve_in, reserve_out)\<close>;
  \<^item> \<open>cellana_get_amounts_out\<close>: \<open>router::get_amounts_out\<close>, yielding the result array as
    numbers.
\<close>

record HyperionRawPool =
  raw_token_a :: tokref
  raw_token_b :: tokref
  raw_pool :: tokref
  raw_pool_address :: tokref
  raw_fee_rate :: "rat option"

record chain =
  hyperion_view_pools :: "string \<Rightarrow> exn + HyperionRawPool list"
  hyperion_get_amount_out :: "string \<Rightarrow> tokref \<Rightarrow> tokref \<Rightarrow> rat \<Rightarrow> exn + rat"
  pancake_getReserves :: "string \<Rightarrow> tokref \<Rightarrow> tokref \<Rightarrow> exn + (rat \<times> rat)"
  cellana_get_amounts_out ::
    "string \<Rightarrow> rat \<Rightarrow> string \<Rightarrow> string list \<Rightarrow> bool list \<Rightarrow> exn + rat list"

definition bind_exn :: "exn + 'a \<Rightarrow> ('a \<Rightarrow> exn + 'b) \<Rightarrow> exn + 'b" where
  "bind_exn m f = (case m of Inl e \<Rightarrow> Inl e | Inr x \<Rightarrow> f x)"

text \<open>\<open>pool.estimatedOutput || 0\<close>.\<close>

definition est0 :: "Pool \<Rightarrow> rat" where
  "est0 pool = (case estimatedOutput pool of None \<Rightarrow> 0 | Some v \<Rightarrow> v)"

section \<open>The single-pool adapter (Hyperion)\<close>

text \<open>
  \<open>HyperionService.estimateAmountOut\<close>: the view call is inside the \<open>try\<close>; its failure
  gives the fallback.
\<close>

definition Hyperion_estimateAmountOut :: "chain \<Rightarrow> Pool \<Rightarrow> rat \<Rightarrow> exn + AmountEstimation" where
  "Hyperion_estimateAmountOut ch pool amountIn' =
     (let poolId = pool_id pool;
          methodAddress' = methodAddress (dex pool);
          tokenIn = (if tokenA pool = TString ''0xa'' then TString ''0xa'' else tokenA pool)
      in case hyperion_get_amount_out ch methodAddress' poolId tokenIn amountIn' of
           Inr estimatedOutput' \<Rightarrow>
             (let slippage' = 5 / 10;
                  minAmountOut' = Math_floor (estimatedOutput' * (1 - slippage' / 100))
              in Inr \<lparr>est_estimatedOutput = estimatedOutput', est_minAmountOut = minAmountOut',
                      est_slippage = slippage'\<rparr>)
         | Inl _ \<Rightarrow>
             (let estimatedOutput' = Math_floor (amountIn' * (9 / 10));
                  slippage' = 5 / 10;
                  minAmountOut' = Math_floor (estimatedOutput' * (1 - slippage' / 100))
              in Inr \<lparr>est_estimatedOutput = estimatedOutput', est_minAmountOut = minAmountOut',
                      est_slippage = slippage'\<rparr>))"

text \<open>
  \<open>functionName.split("::")\<close>: \<open>before_sep\<close> is the part before the first separator (the
  whole string when there is none), \<open>after_sep\<close> the rest after it.
\<close>

fun before_sep :: "string \<Rightarrow> string" where
  "before_sep (c # d # s) =
     (if c = CHR '':'' \<and> d = CHR '':'' then [] else c # before_sep (d # s))"
| "before_sep s = s"

fun after_sep :: "string \<Rightarrow> string option" where
  "after_sep (c # d # s) =
     (if c = CHR '':'' \<and> d = CHR '':'' then Some s else after_sep (d # s))"
| "after_sep s = None"

record PoolSearchParams =
  ps_dex :: DexInfo
  ps_faAddressIn :: string
  ps_faAddressOut :: string
  ps_tokenAddressIn :: string
  ps_tokenAddressOut :: string

text \<open>\<open>a || b\<close> on two strings.\<close>

definition str_or :: "string \<Rightarrow> string \<Rightarrow> string" where
  "str_or a b = (if a \<noteq> [] then a else b)"

text \<open>The pair filter of \<open>HyperionService.findPools\<close>.\<close>

definition Hyperion_isMatch :: "PoolSearchParams \<Rightarrow> HyperionRawPool \<Rightarrow> bool" where
  "Hyperion_isMatch params pool =
     (let poolTokenA = js_or [inner (raw_token_a pool)] (raw_token_a pool);
          poolTokenB = js_or [inner (raw_token_b pool)] (raw_token_b pool);
          tokenIn = str_or (ps_faAddressIn params) (ps_tokenAddressIn params);
          tokenOut = str_or (ps_faAddressOut params) (ps_tokenAddressOut params)
      in (poolTokenA = TString tokenIn \<and> poolTokenB = TString tokenOut) \<or>
         (poolTokenA = TString tokenOut \<and> poolTokenB = TString tokenIn))"

text \<open>
  The mapping of one raw pool, with the quote for the test amount. The raw pool is taken
  to carry only the properties read here, so that the final spread adds nothing.
\<close>

definition Hyperion_mapPool :: "chain \<Rightarrow> DexInfo \<Rightarrow> HyperionRawPool \<Rightarrow> Pool" where
  "Hyperion_mapPool ch dex' pool =
     (let feeRateRaw = (case raw_fee_rate pool of None \<Rightarrow> 0 | Some r \<Rightarrow> r);
          feeRatePercentage = feeRateRaw / 10000;
          mappedPool =
            \<lparr>pool_id = js_or [inner (raw_pool pool), raw_pool pool] (raw_pool_address pool),
             dex = dex',
             tokenA = js_or [inner (raw_token_a pool)] (raw_token_a pool),
             tokenB = js_or [inner (raw_token_b pool)] (raw_token_b pool),
             estimatedOutput = None,
             minAmountOut = None,
             fee = Some feeRatePercentage,
             token_a = raw_token_a pool,
             token_b = raw_token_b pool,
             token_x = TUndefined,
             token_y = TUndefined,
             fa_coin_x_metadata = TUndefined,
             fa_coin_y_metadata = TUndefined,
             fa_coin_x_address = TUndefined,
             fa_coin_y_address = TUndefined,
             routeType = None,
             routePath = None,
             routers = []\<rparr>;
          testAmountIn = 1000000
      in case Hyperion_estimateAmountOut ch mappedPool testAmountIn of
           Inr estimation \<Rightarrow>
             mappedPool\<lparr>estimatedOutput := Some (est_estimatedOutput estimation),
                        minAmountOut := Some (est_minAmountOut estimation)\<rparr>
         | Inl _ \<Rightarrow> mappedPool\<lparr>estimatedOutput := Some 0, minAmountOut := Some 0\<rparr>)"

text \<open>
  \<open>HyperionService.findPools\<close>. \<open>FIND_POOLS\<close> is the value of \<open>FunctionType.FIND_POOLS\<close>,
  declared outside the sources at hand. \<open>Hyperion_findPools_try\<close> is the body of the \<open>try\<close>
  block.
\<close>

definition Hyperion_findPools_try ::
  "chain \<Rightarrow> PoolSearchParams \<Rightarrow> DexFunction \<Rightarrow> exn + Pool list" where
  "Hyperion_findPools_try ch params findPoolsFunction =
     (let dex' = ps_dex params;
          methodAddress' = methodAddress dex';
          functionName' = functionName findPoolsFunction
      in case after_sep functionName' of
           None \<Rightarrow> Inl (Error ''Function name for Hyperion must be in the format module::function'')
         | Some rest \<Rightarrow>
             (let module = before_sep functionName';
                  func = before_sep rest
              in if module = [] \<or> func = [] then Inl (Error ''Invalid functionName format'')
                 else
                   (let functionString = methodAddress' @ ''::'' @ module @ ''::'' @ func
                    in case hyperion_view_pools ch functionString of
                         Inl e \<Rightarrow> Inl e
                       | Inr pools' \<Rightarrow>
                           (let filteredPools = filter (Hyperion_isMatch params) pools';
                                poolsWithEstimation = map (Hyperion_mapPool ch dex') filteredPools;
                                sortedPools =
                                  take 5 (sort_key (\<lambda>pool. - est0 pool)
                                    (filter (\<lambda>pool. est0 pool > 0) poolsWithEstimation))
                            in Inr sortedPools))))"

definition Hyperion_findPools :: "string \<Rightarrow> chain \<Rightarrow> PoolSearchParams \<Rightarrow> exn + Pool list" where
  "Hyperion_findPools FIND_POOLS ch params =
     (case find (\<lambda>f. functionType f = FIND_POOLS \<and> isActive f) (dex_functions (ps_dex params)) of
        None \<Rightarrow> Inr []
      | Some findPoolsFunction \<Rightarrow>
          if methodAddress (ps_dex params) = [] \<or> functionName findPoolsFunction = [] then Inr []
          else
            (case Hyperion_findPools_try ch params findPoolsFunction of
               Inr sortedPools \<Rightarrow> Inr sortedPools
             | Inl _ \<Rightarrow> Inr []))"

section \<open>The path-routed adapter (PancakeSwap)\<close>

text \<open>\<open>path[i]\<close>; reading past the end yields \<open>undefined\<close>.\<close>

definition nth_ref :: "string list \<Rightarrow> nat \<Rightarrow> tokref" where
  "nth_ref xs i = (if i < length xs then TString (xs ! i) else TUndefined)"

text \<open>
  \<open>PancakeSwapService.estimateAmountOut\<close>: \<open>Pancake_estimate_try\<close> is the body of the \<open>try\<close>
  block, in which a reserve lookup or \<open>getAmountOut\<close> may throw.
\<close>

definition Pancake_estimate_try :: "chain \<Rightarrow> Pool \<Rightarrow> rat \<Rightarrow> exn + AmountEstimation" where
  "Pancake_estimate_try ch pool amountIn' =
     (let resourceAccount = methodAddress (dex pool);
          computed =
            (case (routeType pool, routePath pool) of
               (Some routeType', Some routePath') \<Rightarrow>
                 if routeType' = [] then
                   bind_exn (pancake_getReserves ch resourceAccount (tokenA pool) (tokenB pool))
                     (\<lambda>(reserve_in, reserve_out). getAmountOut amountIn' reserve_in reserve_out)
                 else if routeType' = ''direct'' then
                   bind_exn (pancake_getReserves ch resourceAccount
                               (nth_ref routePath' 0) (nth_ref routePath' 1))
                     (\<lambda>(reserve_in, reserve_out). getAmountOut amountIn' reserve_in reserve_out)
                 else if routeType' = ''doublehop'' then
                   bind_exn (pancake_getReserves ch resourceAccount
                               (nth_ref routePath' 0) (nth_ref routePath' 1))
                     (\<lambda>(reserves1_in, reserves1_out).
                        bind_exn (getAmountOut amountIn' reserves1_in reserves1_out)
                          (\<lambda>intermediateOutput.
                             bind_exn (pancake_getReserves ch resourceAccount
                                         (nth_ref routePath' 1) (nth_ref routePath' 2))
                               (\<lambda>(reserves2_in, reserves2_out).
                                  getAmountOut intermediateOutput reserves2_in reserves2_out)))
                 else Inr (Math_floor (amountIn' * (9 / 10)))
             | _ \<Rightarrow>
                 bind_exn (pancake_getReserves ch resourceAccount (tokenA pool) (tokenB pool))
                   (\<lambda>(reserve_in, reserve_out). getAmountOut amountIn' reserve_in reserve_out))
      in bind_exn computed
           (\<lambda>estimatedOutput'.
              let slippage' = 5 / 10;
                  minAmountOut' = Math_floor (estimatedOutput' * (1 - slippage' / 100))
              in Inr \<lparr>est_estimatedOutput = estimatedOutput', est_minAmountOut = minAmountOut',
                      est_slippage = slippage'\<rparr>))"

definition Pancake_estimateAmountOut :: "chain \<Rightarrow> Pool \<Rightarrow> rat \<Rightarrow> exn + AmountEstimation" where
  "Pancake_estimateAmountOut ch pool amountIn' =
     (case Pancake_estimate_try ch pool amountIn' of
        Inr estimation \<Rightarrow> Inr estimation
      | Inl _ \<Rightarrow>
          (let estimatedOutput' = Math_floor (amountIn' * (9 / 10));
               slippage' = 5 / 10;
               minAmountOut' = Math_floor (estimatedOutput' * (1 - slippage' / 100))
           in Inr \<lparr>est_estimatedOutput = estimatedOutput', est_minAmountOut = minAmountOut',
                   est_slippage = slippage'\<rparr>))"

section \<open>The external-router adapter (Cellana)\<close>

text \<open>
  \<open>getCellanaAmountOut\<close>: \<open>BigInt(amountIn)\<close> throws on a number that is not an integer.
\<close>

definition getCellanaAmountOut ::
  "chain \<Rightarrow> string \<Rightarrow> rat \<Rightarrow> string \<Rightarrow> string list \<Rightarrow> bool list \<Rightarrow> exn + rat" where
  "getCellanaAmountOut ch routerAddress amountIn' wrapFrom' wrapToAddresses stableFlags =
     (if of_int \<lfloor>amountIn'\<rfloor> \<noteq> amountIn' then Inl (Error ''RangeError'')
      else if amountIn' > 18446744073709551615 then Inl (Error ''Amount exceeds u64 maximum value'')
      else if amountIn' \<le> 0 then Inl (Error ''Amount must be greater than 0'')
      else
        (case cellana_get_amounts_out ch routerAddress amountIn' wrapFrom' wrapToAddresses stableFlags of
           Inl e \<Rightarrow> Inl e
         | Inr [] \<Rightarrow> Inl (Error ''Invalid response from get_amounts_out'')
         | Inr (amountOut' # _) \<Rightarrow> Inr amountOut'))"

text \<open>\<open>CellanaService.estimateAmountOut\<close>: every failure is rethrown.\<close>

definition Cellana_estimateAmountOut :: "chain \<Rightarrow> Pool \<Rightarrow> rat \<Rightarrow> exn + AmountEstimation" where
  "Cellana_estimateAmountOut ch pool amountIn' =
     (case routers pool of
        [] \<Rightarrow> Inl (Error ''No routers found for Cellana pool'')
      | firstRouter # _ \<Rightarrow>
          (let wrapToAddresses = map wrapTo (routers pool);
               stableFlags = map stable (routers pool)
           in bind_exn
                (getCellanaAmountOut ch (methodAddress (dex pool)) amountIn'
                   (wrapFrom firstRouter) wrapToAddresses stableFlags)
                (\<lambda>estimatedOutput'.
                   Inr \<lparr>est_estimatedOutput = estimatedOutput', est_minAmountOut = estimatedOutput',
                        est_slippage = 5 / 10\<rparr>)))"

section \<open>The adapter registry\<close>

text \<open>
  \<open>DEXFactory.getService(name).estimateAmountOut(pool, amountIn, client)\<close>: \<open>getService\<close>
  throws for a name outside the three adapters.
\<close>

definition DEXFactory_isSupported :: "DexName \<Rightarrow> bool" where
  "DEXFactory_isSupported n = (n \<in> set [HYPERION, PANCAKESWAP, CELLANA])"

definition DEXFactory_estimateAmountOut :: "chain \<Rightarrow> Pool \<Rightarrow> rat \<Rightarrow> exn + AmountEstimation" where
  "DEXFactory_estimateAmountOut ch pool amountIn' =
     (case name (dex pool) of
        HYPERION \<Rightarrow> Hyperion_estimateAmountOut ch pool amountIn'
      | PANCAKESWAP \<Rightarrow> Pancake_estimateAmountOut ch pool amountIn'
      | CELLANA \<Rightarrow> Cellana_estimateAmountOut ch pool amountIn'
      | OtherDex _ \<Rightarrow> Inl (Error ''Unsupported DEX''))"

section \<open>The swap workflow's collaborators\<close>

text \<open>
  What the swap workflow sees of the outside world. Every field is the outcome of one
  awaited call (or of a fixed sequence of calls whose intermediate values the workflow does
  not inspect):
  \<^item> \<open>getWallet\<close>: \<open>walletApi.getWallet(userId)\<close>;
  \<^item> \<open>account_of\<close>: \<open>Account.fromPrivateKey\<close> on the wallet's key, yielding the account
    address;
  \<^item> \<open>getAccountCoinsData\<close>, \<open>getAccountCoinsData_exec\<close>: the balance rows for an asset
    filter, at preparation and at execution time;
  \<^item> \<open>network_sim\<close>: building and simulating the trivial self-transfer;
  \<^item> \<open>getDexes\<close>: the exchange catalogue;
  \<^item> \<open>findPools\<close>: \<open>DEXFactory.getService(dex.name).findPools(params)\<close>;
  \<^item> \<open>the_chain\<close>: the services behind the adapters' quotes;
  \<^item> \<open>swap_sim\<close>: \<open>createSwapTransaction\<close> for a pool followed by its simulation;
  \<^item> \<open>swap_submit\<close>: \<open>createSwapTransaction\<close> for a pool and a slippage, signing,
    submission and the wait for finality.
\<close>

record Wallet =
  privateKey :: "string option"

record SwapExecution =
  exec_hash :: string
  exec_estimatedOutput :: rat
  exec_minAmountOut :: rat

record world =
  getWallet :: "exn + Wallet option"
  account_of :: "string option \<Rightarrow> exn + string"
  getAccountCoinsData :: "string option \<Rightarrow> exn + TokenData list"
  getAccountCoinsData_exec :: "string option \<Rightarrow> exn + TokenData list"
  network_sim :: "exn + simulation"
  getDexes :: "exn + DexInfo list"
  findPools :: "PoolSearchParams \<Rightarrow> exn + Pool list"
  the_chain :: chain
  swap_sim :: "Pool \<Rightarrow> exn + simulation"
  swap_submit :: "Pool \<Rightarrow> rat \<Rightarrow> exn + SwapExecution"

section \<open>Swap preparation\<close>

record TokenValidationResult =
  balance :: int
  tv_decimals :: nat
  tv_tokenData :: TokenData

text \<open>
  \<open>validateTokenBalance\<close>: \<open>!inputTokenData.amount\<close> holds for a missing amount and for
  the number zero.
\<close>

definition validateTokenBalance :: "world \<Rightarrow> string option \<Rightarrow> exn + TokenValidationResult" where
  "validateTokenBalance w tokenAddressIn' =
     bind_exn (getAccountCoinsData w tokenAddressIn')
       (\<lambda>inputResources.
          case inputResources of
            [] \<Rightarrow> Inl (Error ''Input token not found or insufficient balance'')
          | inputTokenData # _ \<Rightarrow>
              (case amount inputTokenData of
                 None \<Rightarrow> Inl (Error ''Input token not found or insufficient balance'')
               | Some a \<Rightarrow>
                   if a = 0 then Inl (Error ''Input token not found or insufficient balance'')
                   else Inr \<lparr>balance = a,
                             tv_decimals = (case decimals inputTokenData of None \<Rightarrow> 8 | Some d \<Rightarrow> d),
                             tv_tokenData = inputTokenData\<rparr>))"

definition validateSwapAmount :: "rat option \<Rightarrow> TokenValidationResult \<Rightarrow> exn + int" where
  "validateSwapAmount amountIn' tokenBalance =
     (case amountIn' of
        None \<Rightarrow> Inl (Error ''Invalid swap amount'')
      | Some amountInNumber \<Rightarrow>
          if amountInNumber \<le> 0 then Inl (Error ''Invalid swap amount'')
          else
            (let swapAmount' = Math_round (amountInNumber * 10 ^ tv_decimals tokenBalance)
             in if of_int swapAmount' > (of_int (balance tokenBalance) :: rat) then Inl (Error ''Insufficient balance.'')
                else Inr swapAmount'))"

text \<open>A falsy nullable string: \<open>null\<close>, \<open>undefined\<close> or the empty string.\<close>

definition falsy_str :: "string option \<Rightarrow> bool" where
  "falsy_str a = (a = None \<or> a = Some [])"

text \<open>The asset whose balance \<open>prepareSwap\<close> checks.\<close>

definition balanceTokenAddress :: "SwapRequest \<Rightarrow> string option" where
  "balanceTokenAddress request' =
     (let balanceTokenAddress0 = tokenAddressIn request';
          balanceTokenAddress1 =
            (if falsy_str balanceTokenAddress0 then faAddressIn request'
             else balanceTokenAddress0)
      in if balanceTokenAddress1 = Some ''0xa'' then Some ''0x1::aptos_coin::AptosCoin''
         else balanceTokenAddress1)"

text \<open>The account of the authenticated user in \<open>prepareSwap\<close>: no explicit wallet check.\<close>

definition wallet_account :: "world \<Rightarrow> exn + string" where
  "wallet_account w =
     bind_exn (getWallet w)
       (\<lambda>wallet. case wallet of
                    None \<Rightarrow> Inl (TypeError ''Cannot read properties of null'')
                  | Some wl \<Rightarrow> account_of w (privateKey wl))"

definition prepareSwap :: "world \<Rightarrow> SwapState \<Rightarrow> exn + SwapState" where
  "prepareSwap w swapState =
     (case request swapState of
        None \<Rightarrow> Inl (Error ''No swap request found'')
      | Some request' \<Rightarrow>
          bind_exn (wallet_account w)
            (\<lambda>account.
               bind_exn (validateTokenBalance w (balanceTokenAddress request'))
                    (\<lambda>tokenBalance.
                       bind_exn (validateSwapAmount (amountIn request') tokenBalance)
                         (\<lambda>swapAmount'.
                           (let gasEstimation' = getNetworkGasEstimation (network_sim w)
                            in Inr \<lparr>phase = FindPool,
                                    request = Some request',
                                    preparedTransaction =
                                      Some \<lparr>swapAmount = swapAmount',
                                            accountAddress = account,
                                            prep_decimals = tv_decimals tokenBalance,
                                            tokenData = tv_tokenData tokenBalance,
                                            gasEstimation = gasEstimation'\<rparr>,
                                    pools = None,
                                    selectedPool = None,
                                    result = None,
                                    error = None,
                                    swapTool_id = swapTool_id swapState\<rparr>)))))"

definition prepareSwapNode :: "world \<Rightarrow> SwapState \<Rightarrow> SwapState" where
  "prepareSwapNode w swapState =
     (case prepareSwap w swapState of
        Inr swapState' \<Rightarrow> swapState'
      | Inl e \<Rightarrow>
          \<lparr>phase = ErrorPhase, request = None, preparedTransaction = None, pools = None,
           selectedPool = None, result = None, error = Some (message e), swapTool_id = []\<rparr>)"

section \<open>Pool aggregation\<close>

text \<open>
  The parameters \<open>findPoolNode\<close> hands to an adapter's \<open>findPools\<close>. The test
  \<open>dex.name.toLowerCase() === 'pancakeswap'\<close> is the test for the PancakeSwap member.
\<close>

definition findPools_params :: "SwapRequest \<Rightarrow> DexInfo \<Rightarrow> PoolSearchParams" where
  "findPools_params request' dex' =
     (let isPancakeSwap = (name dex' = PANCAKESWAP);
          finalTokenAddressIn =
            (if isPancakeSwap then
               (case tokenAddressIn request' of None \<Rightarrow> ''0x1::aptos_coin::AptosCoin'' | Some a \<Rightarrow> a)
             else or_empty (tokenAddressIn request'));
          finalTokenAddressOut =
            (if isPancakeSwap then
               (case tokenAddressOut request' of None \<Rightarrow> ''0x1::aptos_coin::AptosCoin'' | Some a \<Rightarrow> a)
             else or_empty (tokenAddressOut request'))
      in \<lparr>ps_dex = dex',
          ps_faAddressIn = or_empty (faAddressIn request'),
          ps_faAddressOut = or_empty (faAddressOut request'),
          ps_tokenAddressIn = finalTokenAddressIn,
          ps_tokenAddressOut = finalTokenAddressOut\<rparr>)"

text \<open>
  The loop over the catalogue: an unsupported exchange is skipped, an adapter that throws
  contributes nothing, the others' pools are appended in catalogue order.
\<close>

definition adapter_pools :: "world \<Rightarrow> SwapRequest \<Rightarrow> DexInfo \<Rightarrow> Pool list" where
  "adapter_pools w request' dex' =
     (if \<not> DEXFactory_isSupported (name dex') then []
      else case findPools w (findPools_params request' dex') of
             Inr pools' \<Rightarrow> pools'
           | Inl _ \<Rightarrow> [])"

definition collect_pools :: "world \<Rightarrow> SwapRequest \<Rightarrow> DexInfo list \<Rightarrow> Pool list" where
  "collect_pools w request' dexes = concat (map (adapter_pools w request') dexes)"

text \<open>The two token identifiers that the filters read off a pool.\<close>

definition pool_tokenA :: "Pool \<Rightarrow> exn + string" where
  "pool_tokenA pool =
     ref_toLowerCase
       (js_or [inner (token_a pool), token_a pool, inner (token_x pool), token_x pool,
               inner (fa_coin_x_metadata pool), fa_coin_x_metadata pool, fa_coin_x_address pool]
          (TString []))"

definition pool_tokenB :: "Pool \<Rightarrow> exn + string" where
  "pool_tokenB pool =
     ref_toLowerCase
       (js_or [inner (token_b pool), token_b pool, inner (token_y pool), token_y pool,
               inner (fa_coin_y_metadata pool), fa_coin_y_metadata pool, fa_coin_y_address pool]
          (TString []))"

text \<open>The strict filter: the pool's pair against the request's, order-independently.\<close>

definition strict_match :: "SwapRequest \<Rightarrow> Pool \<Rightarrow> exn + bool" where
  "strict_match request' pool =
     bind_exn (pool_tokenA pool)
       (\<lambda>tokenA'.
          bind_exn (pool_tokenB pool)
            (\<lambda>tokenB'.
               let poolTokens = sort_join (Some tokenA') (Some tokenB')
               in if name (dex pool) = PANCAKESWAP then
                    (let reqTokenIn0 = map_option toLowerCase (tokenAddressIn request');
                         reqTokenOut0 = map_option toLowerCase (tokenAddressOut request');
                         reqTokenIn =
                           (if reqTokenIn0 = Some ''0xa'' then Some ''0x1::aptos_coin::aptoscoin''
                            else reqTokenIn0);
                         reqTokenOut =
                           (if reqTokenOut0 = Some ''0xa'' then Some ''0x1::aptos_coin::aptoscoin''
                            else reqTokenOut0);
                         requestTokens = sort_join reqTokenIn reqTokenOut
                     in Inr (poolTokens = requestTokens))
                  else
                    (let reqFaIn0 = toLowerCase (or_empty (faAddressIn request'));
                         reqFaOut0 = toLowerCase (or_empty (faAddressOut request'));
                         reqFaIn =
                           (if reqFaIn0 = ''0x1::aptos_coin::aptoscoin'' then ''0xa'' else reqFaIn0);
                         reqFaOut =
                           (if reqFaOut0 = ''0x1::aptos_coin::aptoscoin'' then ''0xa'' else reqFaOut0);
                         requestTokens = sort_join (Some reqFaIn) (Some reqFaOut)
                     in Inr (poolTokens = requestTokens))))"

text \<open>The substring fallback.\<close>

definition partial_match :: "SwapRequest \<Rightarrow> Pool \<Rightarrow> exn + bool" where
  "partial_match request' pool =
     bind_exn (pool_tokenA pool)
       (\<lambda>tokenA'.
          bind_exn (pool_tokenB pool)
            (\<lambda>tokenB'.
               let requestTokens =
                     filter (\<lambda>t. t \<noteq> [])
                       [or_empty (map_option toLowerCase (faAddressIn request')),
                        or_empty (map_option toLowerCase (faAddressOut request')),
                        or_empty (map_option toLowerCase (tokenAddressIn request')),
                        or_empty (map_option toLowerCase (tokenAddressOut request'))];
                   hasMatch =
                     list_ex
                       (\<lambda>reqToken.
                          str_includes tokenA' reqToken \<or> str_includes tokenB' reqToken \<or>
                          str_includes reqToken tokenA' \<or> str_includes reqToken tokenB')
                       requestTokens
               in Inr hasMatch))"

text \<open>\<open>Array.prototype.filter\<close> with a callback that may throw.\<close>

fun filter_exn :: "('a \<Rightarrow> exn + bool) \<Rightarrow> 'a list \<Rightarrow> exn + 'a list" where
  "filter_exn P [] = Inr []"
| "filter_exn P (x # xs) =
     (case P x of
        Inl e \<Rightarrow> Inl e
      | Inr b \<Rightarrow>
          (case filter_exn P xs of
             Inl e \<Rightarrow> Inl e
           | Inr ys \<Rightarrow> Inr (if b then x # ys else ys)))"

definition filter_pools :: "SwapRequest \<Rightarrow> Pool list \<Rightarrow> exn + Pool list" where
  "filter_pools request' allPools =
     bind_exn (filter_exn (strict_match request') allPools)
       (\<lambda>filteredPools.
          if filteredPools = [] then
            bind_exn (filter_exn (partial_match request') allPools)
              (\<lambda>partialMatchPools. Inr (filteredPools @ partialMatchPools))
          else Inr filteredPools)"

text \<open>
  The quote loop: each pool is quoted for \<open>swapAmount\<close> by its own adapter and updated in
  place; a quote that throws leaves zeros.
\<close>

definition slippageValue :: "SwapRequest \<Rightarrow> rat" where
  "slippageValue request' = (case slippage request' of None \<Rightarrow> 5 / 10 | Some s \<Rightarrow> s)"

definition quote_pool :: "chain \<Rightarrow> rat \<Rightarrow> int \<Rightarrow> Pool \<Rightarrow> Pool" where
  "quote_pool ch slippageValue' swapAmount' pool =
     (case DEXFactory_estimateAmountOut ch pool (of_int swapAmount') of
        Inr estimation \<Rightarrow>
          pool\<lparr>estimatedOutput := Some (est_estimatedOutput estimation),
               minAmountOut :=
                 Some (Math_floor (est_estimatedOutput estimation * (1 - slippageValue' / 100)))\<rparr>
      | Inl _ \<Rightarrow> pool\<lparr>estimatedOutput := Some 0, minAmountOut := Some 0\<rparr>)"

definition quote_pools :: "chain \<Rightarrow> rat \<Rightarrow> int \<Rightarrow> Pool list \<Rightarrow> Pool list" where
  "quote_pools ch slippageValue' swapAmount' filteredPools =
     map (quote_pool ch slippageValue' swapAmount') filteredPools"

text \<open>
  The ranking: drop the pools without a positive estimate, sort by descending estimate
  (the sort is stable), keep the first five.
\<close>

definition rank_pools :: "Pool list \<Rightarrow> Pool list" where
  "rank_pools quoted =
     take 5 (sort_key (\<lambda>pool. - est0 pool) (filter (\<lambda>pool. est0 pool > 0) quoted))"

text \<open>The whole aggregation of \<open>findPoolNode\<close>, from the catalogue to the ranked candidates.\<close>

definition aggregate :: "world \<Rightarrow> SwapRequest \<Rightarrow> int \<Rightarrow> DexInfo list \<Rightarrow> exn + Pool list" where
  "aggregate w request' swapAmount' dexes =
     bind_exn (filter_pools request' (collect_pools w request' dexes))
       (\<lambda>filteredPools.
          Inr (rank_pools
                 (quote_pools (the_chain w) (slippageValue request') swapAmount' filteredPools)))"

section \<open>Resuming with the user's answer\<close>

text \<open>
  A JavaScript number, and a value of which only \<open>typeof v === "number"\<close> and
  \<open>v === undefined\<close> are tested.
\<close>

datatype jsnum = Num rat | NaN | PosInfinity | NegInfinity

datatype jsval = JUndefined | JNumber jsnum | JOther

fun is_number :: "jsval \<Rightarrow> bool" where
  "is_number (JNumber _) = True"
| "is_number _ = False"

text \<open>
  An answer object: \<open>cancelled\<close> is \<open>answer.cancelled === true\<close>. The channels through
  which an answer can reach \<open>findPoolNode\<close>, each already decoded (\<open>None\<close>: the channel is
  empty or its content does not parse to an object):
  \<^item> \<open>cfg_selectedPoolIndex\<close>, \<open>cfg_interrupt_response\<close>, \<open>cfg_response\<close>: the fields of
    \<open>config.configurable\<close>;
  \<^item> \<open>msg_parsed\<close>: the object parsed from the last response message;
  \<^item> \<open>msg_toolCalls\<close>: the arguments of the \<open>swap_tokens\<close> tool calls of the last message
    with tool calls, in order;
  \<^item> \<open>msg_legacy_tool\<close>: the content of the last tool message for the swap tool call;
  \<^item> \<open>interrupt_value\<close>: what \<open>interrupt\<close> returns on resumption; \<open>None\<close> when there is
    nothing to resume with, and \<open>interrupt\<close> throws \<open>GraphInterrupt\<close>.
\<close>

record answer =
  cancelled :: bool
  ans_selectedPoolIndex :: jsval

record HumanResponse =
  response_type :: string
  response_args :: "answer option"

record resume =
  cfg_selectedPoolIndex :: jsval
  cfg_interrupt_response :: "answer option"
  cfg_response :: "answer option"
  msg_parsed :: "answer option"
  msg_toolCalls :: "answer option list"
  msg_legacy_tool :: "answer option"
  interrupt_value :: "HumanResponse list option"

datatype resolution = Cancel string | Index jsval

text \<open>
  One channel: a cancellation returns at once, a numeric index is taken, anything else
  leaves the index undefined for the next channel.
\<close>

definition take_answer :: "answer option \<Rightarrow> resolution \<Rightarrow> resolution" where
  "take_answer a next =
     (case a of
        None \<Rightarrow> next
      | Some x \<Rightarrow>
          if cancelled x then Cancel ''User cancelled swap''
          else if is_number (ans_selectedPoolIndex x) then Index (ans_selectedPoolIndex x)
          else next)"

fun scan_toolCalls :: "answer option list \<Rightarrow> resolution" where
  "scan_toolCalls [] = Index JUndefined"
| "scan_toolCalls (None # rest) = scan_toolCalls rest"
| "scan_toolCalls (Some x # rest) =
     (if cancelled x then Cancel ''User cancelled swap''
      else if is_number (ans_selectedPoolIndex x) then Index (ans_selectedPoolIndex x)
      else scan_toolCalls rest)"

text \<open>
  The block at the head of \<open>findPoolNode\<close>, run when the state already lists pools: only
  its cancellations have an effect.
\<close>

definition early_resolution :: "resume \<Rightarrow> resolution" where
  "early_resolution r =
     (if cfg_selectedPoolIndex r \<noteq> JUndefined then Index (cfg_selectedPoolIndex r)
      else take_answer (cfg_interrupt_response r)
             (take_answer (cfg_response r)
                (take_answer (msg_parsed r) (scan_toolCalls (msg_toolCalls r)))))"

definition early_cancelled :: "SwapState \<Rightarrow> resume \<Rightarrow> bool" where
  "early_cancelled swapState r =
     (case pools swapState of
        None \<Rightarrow> False
      | Some pools' \<Rightarrow> pools' \<noteq> [] \<and> early_resolution r = Cancel ''User cancelled swap'')"

text \<open>The channels consulted after the ranking, before asking the user.\<close>

definition prior_resolution :: "resume \<Rightarrow> resolution" where
  "prior_resolution r =
     (if cfg_selectedPoolIndex r \<noteq> JUndefined then Index (cfg_selectedPoolIndex r)
      else take_answer (cfg_interrupt_response r)
             (take_answer (msg_parsed r)
                (take_answer (msg_legacy_tool r) (Index JUndefined))))"

text \<open>
  The description of the candidates shown to the user. Of its construction only the
  possible failure matters here: for a pool with a truthy estimate, \<open>tokenOut.includes\<close> is
  called on \<open>pool.tokenB || pool.token_b\<close> when that is truthy, which throws when it is an
  object. (No adapter sets \<open>token_b_metadata\<close>, which is read as absent.)
\<close>

definition describe_pools :: "Pool list \<Rightarrow> exn + unit" where
  "describe_pools sortedPools =
     (if list_ex
           (\<lambda>pool. est0 pool \<noteq> 0 \<and>
                   (case js_or [tokenB pool] (token_b pool) of TObject _ \<Rightarrow> True | _ \<Rightarrow> False))
           sortedPools
      then Inl (TypeError ''tokenOut.includes is not a function'')
      else Inr ())"

text \<open>
  The suspension: \<open>interrupt\<close> throws when there is nothing to resume with; a response
  other than \<open>accept\<close> cancels; an accepted response may carry the index.
\<close>

definition ask_human :: "resume \<Rightarrow> Pool list \<Rightarrow> exn + resolution" where
  "ask_human r sortedPools =
     bind_exn (describe_pools sortedPools)
       (\<lambda>_. case interrupt_value r of
               None \<Rightarrow> Inl GraphInterrupt
             | Some humanResponses \<Rightarrow>
                 (case humanResponses of
                    [] \<Rightarrow> Inr (Cancel ''User cancelled pool selection'')
                  | first # _ \<Rightarrow>
                      if response_type first \<noteq> ''accept''
                      then Inr (Cancel ''User cancelled pool selection'')
                      else
                        (case response_args first of
                           None \<Rightarrow> Inr (Index JUndefined)
                         | Some parsed \<Rightarrow>
                             if is_number (ans_selectedPoolIndex parsed)
                             then Inr (Index (ans_selectedPoolIndex parsed))
                             else Inr (Index JUndefined))))"

definition resolve_selection :: "resume \<Rightarrow> Pool list \<Rightarrow> exn + resolution" where
  "resolve_selection r sortedPools =
     (case prior_resolution r of
        Cancel m \<Rightarrow> Inr (Cancel m)
      | Index v \<Rightarrow> if v = JUndefined then ask_human r sortedPools else Inr (Index v))"

text \<open>
  The validation of the index and the read \<open>sortedPools[selectedPoolIndex]\<close>: a number
  within the bounds that is not an integer, or \<open>NaN\<close>, passes the range test and reads
  \<open>undefined\<close>. The out-of-range message of the source also spells out the rejected
  index and the bounds, which are left out of the message here.
\<close>

definition select_pool :: "jsval \<Rightarrow> Pool list \<Rightarrow> exn + Pool" where
  "select_pool selectedPoolIndex sortedPools =
     (case selectedPoolIndex of
        JNumber n \<Rightarrow>
          (case n of
             Num q \<Rightarrow>
               if q < 0 \<or> q \<ge> of_nat (length sortedPools)
               then Inl (Error ''Invalid pool selection: selectedPoolIndex is out of range'')
               else if of_int \<lfloor>q\<rfloor> \<noteq> q
               then Inl (Error ''Invalid pool selection: selectedPool is null'')
               else Inr (sortedPools ! nat \<lfloor>q\<rfloor>)
           | NaN \<Rightarrow> Inl (Error ''Invalid pool selection: selectedPool is null'')
           | PosInfinity \<Rightarrow> Inl (Error ''Invalid pool selection: selectedPoolIndex is out of range'')
           | NegInfinity \<Rightarrow> Inl (Error ''Invalid pool selection: selectedPoolIndex is out of range''))
      | _ \<Rightarrow> Inl (Error ''Invalid pool selection: selectedPoolIndex is out of range''))"

section \<open>The find-pool node\<close>

text \<open>The wallet check of \<open>findPoolNode\<close> and \<open>executeSwapNode\<close>, with its message.\<close>

definition checked_account :: "world \<Rightarrow> string \<Rightarrow> exn + string" where
  "checked_account w msg =
     bind_exn (getWallet w)
       (\<lambda>wallet. case wallet of
                    None \<Rightarrow> Inl (Error msg)
                  | Some wl \<Rightarrow>
                      if falsy_str (privateKey wl) then Inl (Error msg)
                      else account_of w (privateKey wl))"

text \<open>The part of \<open>findPoolNode\<close> after the ranking has produced candidates.\<close>

definition select_and_estimate ::
  "world \<Rightarrow> resume \<Rightarrow> SwapState \<Rightarrow> PreparedSwapTransaction \<Rightarrow> Pool list \<Rightarrow> exn + SwapState" where
  "select_and_estimate w r swapState prepared sortedPools =
     bind_exn (resolve_selection r sortedPools)
       (\<lambda>res.
          case res of
            Cancel m \<Rightarrow> Inr (swapState\<lparr>phase := ErrorPhase, error := Some m\<rparr>)
          | Index selectedPoolIndex \<Rightarrow>
              bind_exn (select_pool selectedPoolIndex sortedPools)
                (\<lambda>selectedPool'.
                   bind_exn (checked_account w ''Wallet not found for gas estimation'')
                     (\<lambda>account.
                        let gasEstimation' =
                              estimateSwapGas (Some selectedPool') (swap_sim w selectedPool')
                                (network_sim w)
                        in Inr (swapState\<lparr>phase := Executing,
                                          pools := Some sortedPools,
                                          selectedPool := Some selectedPool',
                                          preparedTransaction :=
                                            Some (prepared\<lparr>gasEstimation := gasEstimation'\<rparr>)\<rparr>))))"

text \<open>The body of the \<open>try\<close> block of \<open>findPoolNode\<close>.\<close>

definition findPool_try :: "world \<Rightarrow> resume \<Rightarrow> SwapState \<Rightarrow> exn + SwapState" where
  "findPool_try w r swapState =
     (case (preparedTransaction swapState, request swapState) of
        (Some prepared, Some request') \<Rightarrow>
          bind_exn (getDexes w)
            (\<lambda>dexes.
               bind_exn (aggregate w request' (swapAmount prepared) dexes)
                 (\<lambda>sortedPools.
                    if sortedPools = [] then
                      Inr (swapState\<lparr>phase := ErrorPhase,
                                      error := Some ''No pools with valid estimated output found''\<rparr>)
                    else select_and_estimate w r swapState prepared sortedPools))
      | _ \<Rightarrow> Inl (Error ''No prepared transaction found for pool search''))"

text \<open>
  \<open>findPoolNode\<close>: a \<open>GraphInterrupt\<close> propagates, any other exception becomes the error
  state.
\<close>

definition findPoolNode :: "world \<Rightarrow> resume \<Rightarrow> SwapState \<Rightarrow> exn + SwapState" where
  "findPoolNode w r swapState =
     (if early_cancelled swapState r
      then Inr (swapState\<lparr>phase := ErrorPhase, error := Some ''User cancelled swap''\<rparr>)
      else case findPool_try w r swapState of
             Inr swapState' \<Rightarrow> Inr swapState'
           | Inl GraphInterrupt \<Rightarrow> Inl GraphInterrupt
           | Inl e \<Rightarrow> Inr (swapState\<lparr>phase := ErrorPhase, error := Some (message e)\<rparr>))"

section \<open>The execute node and the swap graph\<close>









section \<open>The transfer workflow\<close>

record TransferRequest =
  toAddress :: string
  tr_amount :: string
  tr_tokenAddress :: "string option"
  tr_faAddress :: "string option"

record PreparedTransaction =
  transferAmount :: "rat option"
  tp_accountAddress :: string
  tp_decimals :: nat
  tp_tokenData :: TokenData
  tp_gasEstimation :: gas_estimation
  tp_assetType :: string

record TransferResult =
  tr_success :: bool
  tr_error :: "string option"
  tr_message :: string
  tr_transactionHash :: "string option"

datatype TransferPhase = TPreparing | TConfirming | TExecuting | TCompleted | TError

record TransferState =
  t_phase :: TransferPhase
  t_request :: TransferRequest
  t_preparedTransaction :: "PreparedTransaction option"
  t_result :: "TransferResult option"
  t_error :: "string option"

text \<open>
  What the transfer workflow sees of the outside world:
  \<^item> \<open>t_userId\<close>: \<open>parseInt\<close> of the authenticated user id (\<open>None\<close>: \<open>NaN\<close>);
  \<^item> \<open>t_parseFloat\<close>: \<open>parseFloat\<close> (\<open>None\<close>: \<open>NaN\<close>);
  \<^item> \<open>t_getWallet\<close>, \<open>t_account_of\<close>, \<open>t_getAccountCoinsData\<close>: as for the swap;
  \<^item> \<open>t_build_sim\<close>: \<open>createTransferTransaction\<close> followed by the simulation;
  \<^item> \<open>t_submit\<close>: \<open>createTransferTransaction\<close>, signing, submission and the wait for
    finality, yielding the transaction hash;
  \<^item> \<open>t_interrupt_value\<close>: what \<open>interrupt\<close> returns on resumption.
\<close>

record tworld =
  t_userId :: "int option"
  t_parseFloat :: "string \<Rightarrow> rat option"
  t_getWallet :: "exn + Wallet option"
  t_account_of :: "string option \<Rightarrow> exn + string"
  t_getAccountCoinsData :: "string \<Rightarrow> exn + TokenData list"
  t_build_sim :: "string \<Rightarrow> rat option \<Rightarrow> string \<Rightarrow> exn + simulation"
  t_submit :: "string \<Rightarrow> rat option \<Rightarrow> string \<Rightarrow> exn + string"
  t_interrupt_value :: "HumanResponse list option"

text \<open>\<open>getTokenDecimals\<close> over \<open>TOKEN_REGISTRY\<close>: \<open>token?.decimals || 0\<close>.\<close>

definition TOKEN_REGISTRY :: "(string \<times> nat) list" where
  "TOKEN_REGISTRY =
     [(''0x1::aptos_coin::AptosCoin'', 8),
      (''0xbae207659db88bea0cbead6da0ed00aac12edcdda169e591cd41c94180b46f3b'', 6),
      (''0x357b0b74bc833e95a115ad22604854d6b0fca151cecd94111770e5d6ffc9dc2b'', 6),
      (''0xf22bede237a07e121b56d91a491eb7bcdfd1f5907926a9e58338f964a01b17fa::asset::WETH'', 8),
      (''0xf22bede237a07e121b56d91a491eb7bcdfd1f5907926a9e58338f964a01b17fa::asset::WBTC'', 8),
      (''0xf22bede237a07e121b56d91a491eb7bcdfd1f5907926a9e58338f964a01b17fa::asset::BNB'', 8),
      (''0xf22bede237a07e121b56d91a491eb7bcdfd1f5907926a9e58338f964a01b17fa::asset::SOL'', 8)]"

definition getTokenDecimals :: "string \<Rightarrow> nat" where
  "getTokenDecimals assetType =
     (case map_of TOKEN_REGISTRY assetType of None \<Rightarrow> 0 | Some d \<Rightarrow> d)"

definition transfer_assetType :: "TransferRequest \<Rightarrow> string" where
  "transfer_assetType request' =
     (if \<not> falsy_str (tr_faAddress request') then or_empty (tr_faAddress request')
      else if \<not> falsy_str (tr_tokenAddress request') then or_empty (tr_tokenAddress request')
      else ''0x1::aptos_coin::AptosCoin'')"

definition t_checked_account :: "tworld \<Rightarrow> exn + string" where
  "t_checked_account w =
     bind_exn (t_getWallet w)
       (\<lambda>wallet. case wallet of
                    None \<Rightarrow> Inl (Error ''Wallet not found or private key not available'')
                  | Some wl \<Rightarrow>
                      if falsy_str (privateKey wl)
                      then Inl (Error ''Wallet not found or private key not available'')
                      else t_account_of w (privateKey wl))"

text \<open>
  The balance check of \<open>prepareTransferNode\<close>, from the parsed amount and the first
  balance row to the prepared transaction.
\<close>

definition prepare_checked ::
  "tworld \<Rightarrow> string \<Rightarrow> string \<Rightarrow> rat option \<Rightarrow> TokenData \<Rightarrow> exn + PreparedTransaction" where
  "prepare_checked w account assetType amountNumber tokenData' =
     (let decimals' =
            (case decimals tokenData' of None \<Rightarrow> getTokenDecimals assetType | Some d \<Rightarrow> d);
          balance' = (case amount tokenData' of None \<Rightarrow> 0 | Some a \<Rightarrow> a);
          transferAmount' = map_option (\<lambda>a. a * 10 ^ decimals') amountNumber
      in if (case amountNumber of None \<Rightarrow> False | Some a \<Rightarrow> a > of_int balance')
         then Inl (Error ''Insufficient balance.'')
         else
           bind_exn
             (t_build_sim w assetType transferAmount'
                (case token_standard tokenData' of
                   None \<Rightarrow> ''v1'' | Some std \<Rightarrow> if std = [] then ''v1'' else std))
             (\<lambda>simulationResult.
                Inr \<lparr>transferAmount = transferAmount',
                     tp_accountAddress = account,
                     tp_decimals = decimals',
                     tp_tokenData = tokenData',
                     tp_gasEstimation = transferGasEstimation simulationResult,
                     tp_assetType = assetType\<rparr>))"

text \<open>The body of the \<open>try\<close> block of \<open>prepareTransferNode\<close>.\<close>

definition prepareTransfer_try :: "tworld \<Rightarrow> TransferState \<Rightarrow> exn + TransferState" where
  "prepareTransfer_try w transferState =
     (let request' = t_request transferState;
          assetType = transfer_assetType request'
      in if t_userId w = None \<or> t_userId w = Some 0
         then Inl (Error ''User not authenticated - missing user identity in context'')
         else if toAddress request' = [] then Inl (Error ''Invalid toAddress provided'')
         else if tr_amount request' = [] then Inl (Error ''Invalid amount provided'')
         else
           bind_exn (t_checked_account w)
             (\<lambda>account.
                let amountNumber = t_parseFloat w (tr_amount request')
                in bind_exn (t_getAccountCoinsData w assetType)
                     (\<lambda>resources.
                        case resources of
                          [] \<Rightarrow> Inl (Error ''Token not found or insufficient balance'')
                        | tokenData' # _ \<Rightarrow>
                            if amount tokenData' = None \<or> amount tokenData' = Some 0
                            then Inl (Error ''Token not found or insufficient balance'')
                            else
                              bind_exn (prepare_checked w account assetType amountNumber tokenData')
                                (\<lambda>prepared.
                                   Inr (transferState\<lparr>t_phase := TConfirming,
                                                        t_preparedTransaction := Some prepared\<rparr>)))))"

definition prepareTransferNode :: "tworld \<Rightarrow> TransferState \<Rightarrow> TransferState" where
  "prepareTransferNode w transferState =
     (case prepareTransfer_try w transferState of
        Inr updatedState \<Rightarrow> updatedState
      | Inl e \<Rightarrow>
          transferState\<lparr>t_phase := TError,
                         t_error := Some (message e),
                         t_result :=
                           Some \<lparr>tr_success = False,
                                 tr_error = Some (message e),
                                 tr_message = ''Transfer preparation failed'',
                                 tr_transactionHash = None\<rparr>\<rparr>)"









text \<open>The states in which the two tools start a workflow.\<close>

definition initiateSwap :: "SwapRequest \<Rightarrow> SwapState" where
  "initiateSwap input =
     \<lparr>phase = Preparing, request = Some input, preparedTransaction = None, pools = None,
      selectedPool = None, result = None, error = None, swapTool_id = []\<rparr>"

definition initiateTransfer :: "TransferRequest \<Rightarrow> TransferState" where
  "initiateTransfer input =
     \<lparr>t_phase = TPreparing, t_request = input, t_preparedTransaction = None,
      t_result = None, t_error = None\<rparr>"

section \<open>A concrete scenario\<close>

text \<open>
  The end-to-end scenario: the input token is the native coin, the output token a
  stablecoin, the amount is 10 with a balance of 15 units at 8 decimals, and two adapters
  return one pool each, quoted at 900000 and 950000.
\<close>

definition scenario_request :: SwapRequest where
  "scenario_request =
     \<lparr>faAddressIn = Some ''0xa'', faAddressOut = Some ''0xusdc'',
      tokenAddressIn = Some ''0x1::aptos_coin::AptosCoin'', tokenAddressOut = Some ''0xb::coin::USDC'',
      amountIn = Some 10, address = ''0xuser'', slippage = None\<rparr>"

definition hyperion_dex :: DexInfo where
  "hyperion_dex =
     \<lparr>name = HYPERION, methodAddress = ''0xh'',
      dex_functions = [\<lparr>functionType = ''FIND_POOLS'', functionName = ''pool_v3::all_pools'',
                        isActive = True\<rparr>]\<rparr>"

definition pancake_dex :: DexInfo where
  "pancake_dex = \<lparr>name = PANCAKESWAP, methodAddress = ''0xp'', dex_functions = []\<rparr>"

definition hyperion_pool :: Pool where
  "hyperion_pool =
     \<lparr>pool_id = TString ''0xpool1'', dex = hyperion_dex,
      tokenA = TString ''0xa'', tokenB = TString ''0xusdc'',
      estimatedOutput = Some 123, minAmountOut = Some 122, fee = Some (3 / 10),
      token_a = TObject (Some ''0xa''), token_b = TObject (Some ''0xusdc''),
      token_x = TUndefined, token_y = TUndefined,
      fa_coin_x_metadata = TUndefined, fa_coin_y_metadata = TUndefined,
      fa_coin_x_address = TUndefined, fa_coin_y_address = TUndefined,
      routeType = None, routePath = None, routers = []\<rparr>"

definition pancake_pool :: Pool where
  "pancake_pool =
     \<lparr>pool_id = TString ''0xp'', dex = pancake_dex,
      tokenA = TString ''0x1::aptos_coin::AptosCoin'', tokenB = TString ''0xb::coin::USDC'',
      estimatedOutput = Some 0, minAmountOut = None, fee = None,
      token_a = TString ''0x1::aptos_coin::AptosCoin'', token_b = TString ''0xb::coin::USDC'',
      token_x = TUndefined, token_y = TUndefined,
      fa_coin_x_metadata = TUndefined, fa_coin_y_metadata = TUndefined,
      fa_coin_x_address = TUndefined, fa_coin_y_address = TUndefined,
      routeType = Some ''direct'',
      routePath = Some [''0x1::aptos_coin::AptosCoin'', ''0xb::coin::USDC''], routers = []\<rparr>"

definition scenario_chain :: chain where
  "scenario_chain =
     \<lparr>hyperion_view_pools = (\<lambda>_. Inr []),
      hyperion_get_amount_out = (\<lambda>_ _ _ _. Inr 900000),
      pancake_getReserves = (\<lambda>_ _ _. Inr (997500000, 1900000)),
      cellana_get_amounts_out = (\<lambda>_ _ _ _ _. Inl (Error ''unreachable''))\<rparr>"

definition scenario_simulation :: simulation where
  "scenario_simulation = \<lparr>gas_unit_price = 100, gas_used = 500, max_gas_amount = 20000\<rparr>"

definition scenario_world :: world where
  "scenario_world =
     \<lparr>getWallet = Inr (Some \<lparr>privateKey = Some ''key''\<rparr>),
      account_of = (\<lambda>_. Inr ''0xuser''),
      getAccountCoinsData =
        (\<lambda>_. Inr [\<lparr>amount = Some 1500000000, decimals = Some 8, token_standard = Some ''v1''\<rparr>]),
      getAccountCoinsData_exec =
        (\<lambda>_. Inr [\<lparr>amount = Some 1500000000, decimals = Some 8, token_standard = Some ''v1''\<rparr>]),
      network_sim = Inr scenario_simulation,
      getDexes = Inr [hyperion_dex, pancake_dex],
      findPools =
        (\<lambda>params. if name (ps_dex params) = HYPERION then Inr [hyperion_pool]
                    else if name (ps_dex params) = PANCAKESWAP then Inr [pancake_pool]
                    else Inr []),
      the_chain = scenario_chain,
      swap_sim = (\<lambda>_. Inr scenario_simulation),
      swap_submit =
        (\<lambda>_ _. Inr \<lparr>exec_hash = ''0xhash'', exec_estimatedOutput = 950000,
                       exec_minAmountOut = 945250\<rparr>)\<rparr>"

text \<open>Resumptions: nothing to resume with, and an index given up front.\<close>

definition no_answer :: resume where
  "no_answer =
     \<lparr>cfg_selectedPoolIndex = JUndefined, cfg_interrupt_response = None, cfg_response = None,
      msg_parsed = None, msg_toolCalls = [], msg_legacy_tool = None, interrupt_value = None\<rparr>"

definition answer_index :: "rat \<Rightarrow> resume" where
  "answer_index i = no_answer\<lparr>cfg_selectedPoolIndex := JNumber (Num i)\<rparr>"

text \<open>
  A transfer of 5 units of the native coin by a holder of 10 smallest units, and a
  simulator that reports a runaway gas use.
\<close>

definition scenario_transfer :: TransferRequest where
  "scenario_transfer =
     \<lparr>toAddress = ''0xdest'', tr_amount = ''5'', tr_tokenAddress = None, tr_faAddress = None\<rparr>"

definition runaway_simulation :: simulation where
  "runaway_simulation = \<lparr>gas_unit_price = 100, gas_used = 100000, max_gas_amount = 200000\<rparr>"

definition scenario_tworld :: tworld where
  "scenario_tworld =
     \<lparr>t_userId = Some 1,
      t_parseFloat = (\<lambda>s. if s = ''5'' then Some 5 else if s = ''50'' then Some 50 else None),
      t_getWallet = Inr (Some \<lparr>privateKey = Some ''key''\<rparr>),
      t_account_of = (\<lambda>_. Inr ''0xuser''),
      t_getAccountCoinsData =
        (\<lambda>_. Inr [\<lparr>amount = Some 10, decimals = Some 8, token_standard = Some ''v1''\<rparr>]),
      t_build_sim = (\<lambda>_ _ _. Inr scenario_simulation),
      t_submit = (\<lambda>_ _ _. Inr ''0xhash''),
      t_interrupt_value = Some [\<lparr>response_type = ''accept'', response_args = None\<rparr>]\<rparr>"

text \<open>The scenario's state after a successful preparation.\<close>

definition scenario_prepared_tx :: PreparedSwapTransaction where
  "scenario_prepared_tx =
     \<lparr>swapAmount = 1000000000, accountAddress = ''0xuser'', prep_decimals = 8,
      tokenData = \<lparr>amount = Some 1500000000, decimals = Some 8, token_standard = Some ''v1''\<rparr>,
      gasEstimation = \<lparr>totalGasCostInAPT = 1 / 2000, maxGasCostInAPT = 3 / 125\<rparr>\<rparr>"

definition scenario_prepared :: SwapState where
  "scenario_prepared =
     \<lparr>phase = FindPool, request = Some scenario_request,
      preparedTransaction = Some scenario_prepared_tx,
      pools = None, selectedPool = None, result = None, error = None, swapTool_id = []\<rparr>"

text \<open>The two candidates of the scenario after quoting.\<close>

definition pancake_quoted :: Pool where
  "pancake_quoted = pancake_pool\<lparr>estimatedOutput := Some 950000, minAmountOut := Some 945250\<rparr>"

definition hyperion_quoted :: Pool where
  "hyperion_quoted = hyperion_pool\<lparr>estimatedOutput := Some 900000, minAmountOut := Some 895500\<rparr>"

text \<open>
  The scenario with a tie: the path-routed adapter's reserves are such that its quote is
  900000 as well.
\<close>

definition tie_world :: world where
  "tie_world =
     scenario_world
       \<lparr>the_chain := scenario_chain\<lparr>pancake_getReserves := (\<lambda>_ _ _. Inr (997500000, 1800000))\<rparr>\<rparr>"

definition pancake_tied :: Pool where
  "pancake_tied = pancake_pool\<lparr>estimatedOutput := Some 900000, minAmountOut := Some 895500\<rparr>"

text \<open>
  A ledger on which the pool list is served and holds the scenario's pool, while every
  quote and reserve lookup fails.
\<close>

definition hyperion_raw :: HyperionRawPool where
  "hyperion_raw =
     \<lparr>raw_token_a = TObject (Some ''0xa''), raw_token_b = TObject (Some ''0xusdc''),
      raw_pool = TObject (Some ''0xpool1''), raw_pool_address = TUndefined,
      raw_fee_rate = Some 3000\<rparr>"

definition quote_failing_chain :: chain where
  "quote_failing_chain =
     \<lparr>hyperion_view_pools = (\<lambda>_. Inr [hyperion_raw]),
      hyperion_get_amount_out = (\<lambda>_ _ _ _. Inl (Error ''view call failed'')),
      pancake_getReserves = (\<lambda>_ _ _. Inl (Error ''HTTP Error: 500'')),
      cellana_get_amounts_out = (\<lambda>_ _ _ _ _. Inl (Error ''view call failed''))\<rparr>"

section \<open>Theorems\<close>

subsection \<open>Gas estimates\<close>

lemma getNetworkGasEstimation_capped:
  "totalGasCostInAPT (getNetworkGasEstimation s) \<le> 5 / 100 \<and>
   maxGasCostInAPT (getNetworkGasEstimation s) \<le> 1 / 10"
  by (cases s) (auto simp: getNetworkGasEstimation_def Let_def min_def)

lemma estimateSwapGas_capped:
  "totalGasCostInAPT (estimateSwapGas p s n) \<le> 5 / 100 \<and>
   maxGasCostInAPT (estimateSwapGas p s n) \<le> 1 / 10"
  using getNetworkGasEstimation_capped [of n]
  by (cases p; cases s) (auto simp: estimateSwapGas_def Let_def min_def)

text \<open>
  C1. The transfer workflow's preparation estimate is not capped: for a simulator that
  reports a unit price of 100, 100000 units used and a maximum of 200000 units, the prepared
  transfer carries a total cost of 0.1 and a maximum cost of 0.2 native units, above the caps
  of 0.05 and 0.1, while the two swap estimates return capped values for the same report.
\<close>

theorem transfer_gas_exceeds_caps:
  "map_option tp_gasEstimation
     (t_preparedTransaction
        (prepareTransferNode (scenario_tworld\<lparr>t_build_sim := (\<lambda>_ _ _. Inr runaway_simulation)\<rparr>)
           (initiateTransfer scenario_transfer))) =
     Some \<lparr>totalGasCostInAPT = 1 / 10, maxGasCostInAPT = 2 / 10\<rparr> \<and>
   getNetworkGasEstimation (Inr runaway_simulation) =
     \<lparr>totalGasCostInAPT = 5 / 100, maxGasCostInAPT = 5 / 100\<rparr> \<and>
   estimateSwapGas (Some hyperion_pool) (Inr runaway_simulation) (Inr runaway_simulation) =
     \<lparr>totalGasCostInAPT = 5 / 100, maxGasCostInAPT = 1 / 10\<rparr>"
  by code_simp

subsection \<open>Terminal states\<close>

















subsection \<open>Quotes and ranking\<close>


lemma quote_pool_estimate:
  "estimatedOutput (quote_pool ch s amt p) =
     Some (case DEXFactory_estimateAmountOut ch p (of_int amt) of
             Inr estimation \<Rightarrow> est_estimatedOutput estimation
           | Inl _ \<Rightarrow> 0)"
  by (simp add: quote_pool_def split: sum.splits)

lemma estimate_ignores_discovery:
  "DEXFactory_estimateAmountOut ch (p\<lparr>estimatedOutput := x, minAmountOut := y\<rparr>) a =
   DEXFactory_estimateAmountOut ch p a"
proof (cases "name (dex p)")
  case PANCAKESWAP
  have "Pancake_estimate_try ch (p\<lparr>estimatedOutput := x, minAmountOut := y\<rparr>) a =
        Pancake_estimate_try ch p a"
    by (simp add: Pancake_estimate_try_def Let_def split: option.splits)
  with PANCAKESWAP show ?thesis
    by (simp add: DEXFactory_estimateAmountOut_def Pancake_estimateAmountOut_def)
next
  case CELLANA
  then show ?thesis
    by (simp add: DEXFactory_estimateAmountOut_def Cellana_estimateAmountOut_def Let_def
        split: list.splits)
qed (simp_all add: DEXFactory_estimateAmountOut_def Hyperion_estimateAmountOut_def Let_def)

lemma quote_ignores_discovery:
  "estimatedOutput (quote_pool ch s amt (p\<lparr>estimatedOutput := x, minAmountOut := y\<rparr>)) =
   estimatedOutput (quote_pool ch s amt p)"
  by (simp add: quote_pool_def estimate_ignores_discovery split: sum.splits)


lemma rank_pools_take:
  "rank_pools quoted =
     take 5 (sort_key (\<lambda>pool. - est0 pool) (filter (\<lambda>pool. 0 < est0 pool) quoted))"
  by (simp add: rank_pools_def)

lemma sorted_desc_sort_key:
  "sorted_wrt (\<lambda>a b. est0 b \<le> est0 a) (sort_key (\<lambda>pool. - est0 pool) xs)"
proof -
  have "sorted (map (\<lambda>pool. - est0 pool) (sort_key (\<lambda>pool. - est0 pool) xs))"
    by (rule sorted_sort_key)
  then show ?thesis
    by (simp add: sorted_map)
qed

lemma findPoolNode_no_candidates:
  assumes "preparedTransaction st = Some prep" "request st = Some req"
    and "getDexes w = Inr dexes" "\<not> early_cancelled st r"
    and "aggregate w req (swapAmount prep) dexes = Inr []"
  shows "findPoolNode w r st =
           Inr (st\<lparr>phase := ErrorPhase, error := Some ''No pools with valid estimated output found''\<rparr>)"
  using assms by (simp add: findPoolNode_def findPool_try_def bind_exn_def)


lemma select_and_estimate_executing:
  assumes "select_and_estimate w r st prep cands = Inr st'" "phase st' = Executing"
  shows "pools st' = Some cands"
  using assms
  by (auto simp: select_and_estimate_def bind_exn_def
      split: sum.splits resolution.splits)


lemma findPoolNode_executing:
  assumes "preparedTransaction st = Some prep" "request st = Some req"
    and "getDexes w = Inr dexes"
    and "aggregate w req (swapAmount prep) dexes = Inr cands"
    and "findPoolNode w r st = Inr st'" "phase st' = Executing"
  shows "pools st' = Some cands"
proof -
  from assms(5,6) have nc: "\<not> early_cancelled st r"
    by (auto simp: findPoolNode_def split: if_splits)
  show ?thesis
  proof (cases "cands = []")
    case True
    with assms nc show ?thesis
      by (auto simp: findPoolNode_def findPool_try_def bind_exn_def)
  next
    case False
    with assms nc have "select_and_estimate w r st prep cands = Inr st'"
      by (auto simp: findPoolNode_def findPool_try_def bind_exn_def
          split: sum.splits exn.splits)
    then show ?thesis using assms(6) by (rule select_and_estimate_executing)
  qed
qed


lemma scenario_prepared_eq:
  "prepareSwapNode scenario_world (initiateSwap scenario_request) = scenario_prepared"
  by code_simp

lemma scenario_filtered:
  "filter_pools scenario_request
     (collect_pools scenario_world scenario_request [hyperion_dex, pancake_dex]) =
   Inr [hyperion_pool, pancake_pool]"
  by code_simp

lemma scenario_aggregate:
  "aggregate scenario_world scenario_request 1000000000 [hyperion_dex, pancake_dex] =
     Inr [pancake_quoted, hyperion_quoted]"
  by code_simp



text \<open>
  C4. In \<open>findPoolNode\<close>, once the catalogue is fetched and the token-pair filter has
  returned: every surviving pool is quoted by its adapter for the prepared \<open>swapAmount\<close>
  (whatever estimate it carried from discovery, which the quote does not read), the pools
  whose quote is not positive are dropped, the rest is sorted by descending estimate and
  the first five are the candidates; with no candidate the node returns the phase \<open>error\<close>
  with the no-pools message, and a state that moves on to \<open>executing\<close> lists exactly these
  candidates.
\<close>

theorem aggregation_ranking:
  assumes prep: "preparedTransaction st = Some prep"
    and req: "request st = Some req"
    and dexes: "getDexes w = Inr dexes"
    and filtered: "filter_pools req (collect_pools w req dexes) = Inr filtered"
    and nc: "\<not> early_cancelled st r"
  shows
    "\<exists>ranked.
       mset ranked =
         mset (filter (\<lambda>p. 0 < est0 p)
                (map (quote_pool (the_chain w) (slippageValue req) (swapAmount prep)) filtered)) \<and>
       sorted_wrt (\<lambda>a b. est0 b \<le> est0 a) ranked \<and>
       aggregate w req (swapAmount prep) dexes = Inr (take 5 ranked) \<and>
       length (take 5 ranked) \<le> 5 \<and>
       (\<forall>p \<in> set filtered.
          estimatedOutput (quote_pool (the_chain w) (slippageValue req) (swapAmount prep) p) =
            Some (case DEXFactory_estimateAmountOut (the_chain w) p (of_int (swapAmount prep)) of
                    Inr estimation \<Rightarrow> est_estimatedOutput estimation
                  | Inl _ \<Rightarrow> 0) \<and>
          (\<forall>x y. estimatedOutput
                   (quote_pool (the_chain w) (slippageValue req) (swapAmount prep)
                      (p\<lparr>estimatedOutput := x, minAmountOut := y\<rparr>)) =
                 estimatedOutput
                   (quote_pool (the_chain w) (slippageValue req) (swapAmount prep) p))) \<and>
       (take 5 ranked = [] \<longrightarrow>
          findPoolNode w r st =
            Inr (st\<lparr>phase := ErrorPhase,
                    error := Some ''No pools with valid estimated output found''\<rparr>)) \<and>
       (\<forall>st'. findPoolNode w r st = Inr st' \<and> phase st' = Executing \<longrightarrow>
          pools st' = Some (take 5 ranked))"
proof -
  let ?quoted = "map (quote_pool (the_chain w) (slippageValue req) (swapAmount prep)) filtered"
  let ?ranked = "sort_key (\<lambda>pool. - est0 pool) (filter (\<lambda>p. 0 < est0 p) ?quoted)"
  have agg: "aggregate w req (swapAmount prep) dexes = Inr (take 5 ?ranked)"
    using filtered by (simp add: aggregate_def bind_exn_def quote_pools_def rank_pools_take)
  have m: "mset ?ranked = mset (filter (\<lambda>p. 0 < est0 p) ?quoted)"
    by simp
  have s: "sorted_wrt (\<lambda>a b. est0 b \<le> est0 a) ?ranked"
    by (rule sorted_desc_sort_key)
  have e: "take 5 ?ranked = [] \<longrightarrow>
          findPoolNode w r st =
            Inr (st\<lparr>phase := ErrorPhase,
                    error := Some ''No pools with valid estimated output found''\<rparr>)"
    using findPoolNode_no_candidates [OF prep req dexes nc] agg by simp
  have x: "\<forall>st'. findPoolNode w r st = Inr st' \<and> phase st' = Executing \<longrightarrow>
          pools st' = Some (take 5 ?ranked)"
    using findPoolNode_executing [OF prep req dexes agg] by blast
  show ?thesis
    using m s agg e x quote_pool_estimate quote_ignores_discovery
    by (intro exI [of _ ?ranked]) simp
qed

theorem aggregation_ranking_witness:
  "(\<exists>ranked.
      aggregate scenario_world scenario_request 1000000000 [hyperion_dex, pancake_dex] =
        Inr (take 5 ranked) \<and>
      take 5 ranked = [pancake_quoted, hyperion_quoted] \<and>
      sorted_wrt (\<lambda>a b. est0 b \<le> est0 a) ranked) \<and>
   findPoolNode (scenario_world\<lparr>getDexes := Inr []\<rparr>) no_answer scenario_prepared =
     Inr (scenario_prepared\<lparr>phase := ErrorPhase,
                            error := Some ''No pools with valid estimated output found''\<rparr>)"
proof -
  have prep: "preparedTransaction scenario_prepared = Some scenario_prepared_tx"
    and req: "request scenario_prepared = Some scenario_request"
    by (simp_all add: scenario_prepared_def)
  have amt: "swapAmount scenario_prepared_tx = 1000000000"
    by (simp add: scenario_prepared_tx_def)
  have dexes: "getDexes scenario_world = Inr [hyperion_dex, pancake_dex]"
    by (simp add: scenario_world_def)
  have nc: "\<not> early_cancelled scenario_prepared r" for r
    by (simp add: early_cancelled_def scenario_prepared_def)
  from aggregation_ranking [OF prep req dexes scenario_filtered nc, of no_answer]
  obtain ranked where
    r: "aggregate scenario_world scenario_request 1000000000 [hyperion_dex, pancake_dex] =
          Inr (take 5 ranked)"
       "sorted_wrt (\<lambda>a b. est0 b \<le> est0 a) ranked"
    unfolding amt by blast
  from r(1) scenario_aggregate have "take 5 ranked = [pancake_quoted, hyperion_quoted]"
    by simp
  with r have first: "\<exists>ranked.
      aggregate scenario_world scenario_request 1000000000 [hyperion_dex, pancake_dex] =
        Inr (take 5 ranked) \<and>
      take 5 ranked = [pancake_quoted, hyperion_quoted] \<and>
      sorted_wrt (\<lambda>a b. est0 b \<le> est0 a) ranked"
    by blast
  let ?w = "scenario_world\<lparr>getDexes := Inr []\<rparr>"
  have dexes0: "getDexes ?w = Inr []"
    by simp
  have filtered0: "filter_pools scenario_request (collect_pools ?w scenario_request []) = Inr []"
    by (simp add: collect_pools_def filter_pools_def bind_exn_def)
  from aggregation_ranking [OF prep req dexes0 filtered0 nc, of no_answer]
  obtain ranked0 where
    r0: "mset ranked0 = {#}"
        "take 5 ranked0 = [] \<longrightarrow>
          findPoolNode ?w no_answer scenario_prepared =
            Inr (scenario_prepared\<lparr>phase := ErrorPhase,
                    error := Some ''No pools with valid estimated output found''\<rparr>)"
    by auto
  from r0 have second: "findPoolNode ?w no_answer scenario_prepared =
            Inr (scenario_prepared\<lparr>phase := ErrorPhase,
                    error := Some ''No pools with valid estimated output found''\<rparr>)"
    by simp
  from first second show ?thesis by (rule conjI)
qed

subsection \<open>Pool selection\<close>

lemma select_pool_invalid:
  assumes "\<forall>i < length cands. v \<noteq> JNumber (Num (of_nat i))"
  shows "select_pool v cands = Inl (Error ''Invalid pool selection: selectedPoolIndex is out of range'') \<or>
         select_pool v cands = Inl (Error ''Invalid pool selection: selectedPool is null'')"
proof (cases v)
  case (JNumber n)
  show ?thesis
  proof (cases n)
    case (Num q)
    show ?thesis
    proof (cases "q < 0 \<or> q \<ge> of_nat (length cands)")
      case True
      then show ?thesis using JNumber Num by (simp add: select_pool_def)
    next
      case False
      have "of_int \<lfloor>q\<rfloor> \<noteq> q"
      proof
        assume eq: "of_int \<lfloor>q\<rfloor> = q"
        from False have "0 \<le> q" "q < of_nat (length cands)" by simp_all
        then have nn: "0 \<le> \<lfloor>q\<rfloor>" by simp
        have "rat_of_nat (nat \<lfloor>q\<rfloor>) = rat_of_int \<lfloor>q\<rfloor>"
          using nn by (rule of_nat_nat)
        with eq have qn: "q = of_nat (nat \<lfloor>q\<rfloor>)"
          by (simp only:)
        with \<open>q < of_nat (length cands)\<close> have "rat_of_nat (nat \<lfloor>q\<rfloor>) < of_nat (length cands)"
          by (simp only:)
        then have "nat \<lfloor>q\<rfloor> < length cands"
          by (simp only: of_nat_less_iff)
        with qn show False using assms JNumber Num by blast
      qed
      then show ?thesis using JNumber Num False by (simp add: select_pool_def)
    qed
  qed (use JNumber in \<open>simp_all add: select_pool_def\<close>)
qed (simp_all add: select_pool_def)

lemma select_pool_out_of_range:
  assumes "\<not> is_number v \<or> (\<exists>q. v = JNumber (Num q) \<and> (q < 0 \<or> q \<ge> of_nat (length cands))) \<or>
           v = JNumber PosInfinity \<or> v = JNumber NegInfinity"
  shows "select_pool v cands = Inl (Error ''Invalid pool selection: selectedPoolIndex is out of range'')"
  using assms by (cases v) (auto simp: select_pool_def)

lemma findPoolNode_select_error:
  assumes "preparedTransaction st = Some prep" "request st = Some req"
    and "getDexes w = Inr dexes"
    and "aggregate w req (swapAmount prep) dexes = Inr cands" "cands \<noteq> []"
    and "\<not> early_cancelled st r"
    and "resolve_selection r cands = Inr (Index v)"
    and "select_pool v cands = Inl (Error m)"
  shows "findPoolNode w r st = Inr (st\<lparr>phase := ErrorPhase, error := Some m\<rparr>)"
  using assms
  by (simp add: findPoolNode_def findPool_try_def select_and_estimate_def bind_exn_def)

lemma take_answer_skip:
  "\<forall>x. a = Some x \<longrightarrow> \<not> cancelled x \<and> \<not> is_number (ans_selectedPoolIndex x) \<Longrightarrow>
   take_answer a next = next"
  by (cases a) (simp_all add: take_answer_def)

lemma resolve_selection_unanswered:
  assumes "cfg_selectedPoolIndex r = JUndefined"
    and "\<forall>a \<in> set [cfg_interrupt_response r, msg_parsed r, msg_legacy_tool r].
           \<forall>x. a = Some x \<longrightarrow> \<not> cancelled x \<and> \<not> is_number (ans_selectedPoolIndex x)"
  shows "resolve_selection r cands = ask_human r cands"
  using assms by (simp add: resolve_selection_def prior_resolution_def take_answer_skip)

lemma findPoolNode_suspends:
  assumes "preparedTransaction st = Some prep" "request st = Some req"
    and "getDexes w = Inr dexes"
    and "aggregate w req (swapAmount prep) dexes = Inr cands" "cands \<noteq> []"
    and "\<not> early_cancelled st r"
    and "resolve_selection r cands = Inl GraphInterrupt"
  shows "findPoolNode w r st = Inl GraphInterrupt"
  using assms
  by (simp add: findPoolNode_def findPool_try_def select_and_estimate_def bind_exn_def)

lemma ask_human_suspends:
  "interrupt_value r = None \<Longrightarrow> describe_pools cands = Inr () \<Longrightarrow>
   ask_human r cands = Inl GraphInterrupt"
  by (simp add: ask_human_def bind_exn_def)

lemma ask_human_accept_no_index:
  "interrupt_value r = Some (h # hs) \<Longrightarrow> response_type h = ''accept'' \<Longrightarrow>
   \<forall>p. response_args h = Some p \<longrightarrow> \<not> is_number (ans_selectedPoolIndex p) \<Longrightarrow>
   describe_pools cands = Inr () \<Longrightarrow>
   ask_human r cands = Inr (Index JUndefined)"
  by (cases "response_args h") (simp_all add: ask_human_def bind_exn_def)

text \<open>
  C5, amended. Let the ranking have produced candidates. Whenever the index the node takes
  from the resumed run is not a number, or is a number below 0 or not below the number of
  candidates, the node returns the phase \<open>error\<close> with the out-of-range validation
  message; for every taken value that is not an integer index into the candidates (\<open>NaN\<close>
  and fractions included) it returns the phase \<open>error\<close> with an invalid-selection message,
  and neither the selected pool nor the pool list of the state is touched. The index taken
  is the configured \<open>selectedPoolIndex\<close> whenever that is defined, numeric or not. When it
  is undefined and each of the answer channels is empty or carries an uncancelled answer
  without a numeric index, those answers are passed over and the user is asked: with
  nothing to resume with the node suspends again instead of failing, and an accepted
  response without a numeric index is the out-of-range error.
\<close>

theorem invalid_selection_is_error:
  assumes prep: "preparedTransaction st = Some prep"
    and req: "request st = Some req"
    and dexes: "getDexes w = Inr dexes"
    and agg: "aggregate w req (swapAmount prep) dexes = Inr cands"
    and ne: "cands \<noteq> []"
    and nc: "\<not> early_cancelled st r"
  shows
    "(\<forall>v. resolve_selection r cands = Inr (Index v) \<longrightarrow>
        (\<not> is_number v \<or> (\<exists>q. v = JNumber (Num q) \<and> (q < 0 \<or> q \<ge> of_nat (length cands))) \<or>
           v = JNumber PosInfinity \<or> v = JNumber NegInfinity \<longrightarrow>
           findPoolNode w r st =
             Inr (st\<lparr>phase := ErrorPhase,
                     error := Some ''Invalid pool selection: selectedPoolIndex is out of range''\<rparr>)) \<and>
        ((\<forall>i < length cands. v \<noteq> JNumber (Num (of_nat i))) \<longrightarrow>
           (\<exists>m. findPoolNode w r st = Inr (st\<lparr>phase := ErrorPhase, error := Some m\<rparr>) \<and>
                take 22 m = ''Invalid pool selection'' \<and>
                selectedPool (st\<lparr>phase := ErrorPhase, error := Some m\<rparr>) = selectedPool st \<and>
                pools (st\<lparr>phase := ErrorPhase, error := Some m\<rparr>) = pools st))) \<and>
     (cfg_selectedPoolIndex r \<noteq> JUndefined \<longrightarrow>
        resolve_selection r cands = Inr (Index (cfg_selectedPoolIndex r))) \<and>
     (cfg_selectedPoolIndex r = JUndefined \<and>
      (\<forall>a \<in> set [cfg_interrupt_response r, msg_parsed r, msg_legacy_tool r].
         \<forall>x. a = Some x \<longrightarrow> \<not> cancelled x \<and> \<not> is_number (ans_selectedPoolIndex x)) \<and>
      describe_pools cands = Inr () \<longrightarrow>
        (interrupt_value r = None \<longrightarrow> findPoolNode w r st = Inl GraphInterrupt) \<and>
        (\<forall>h hs. interrupt_value r = Some (h # hs) \<and> response_type h = ''accept'' \<and>
                (\<forall>p. response_args h = Some p \<longrightarrow> \<not> is_number (ans_selectedPoolIndex p)) \<longrightarrow>
           findPoolNode w r st =
             Inr (st\<lparr>phase := ErrorPhase,
                     error := Some ''Invalid pool selection: selectedPoolIndex is out of range''\<rparr>)))"
proof -
  have oor: "findPoolNode w r st =
          Inr (st\<lparr>phase := ErrorPhase,
                  error := Some ''Invalid pool selection: selectedPoolIndex is out of range''\<rparr>)"
    if res: "resolve_selection r cands = Inr (Index v)"
      and bad: "\<not> is_number v \<or> (\<exists>q. v = JNumber (Num q) \<and> (q < 0 \<or> q \<ge> of_nat (length cands))) \<or>
        v = JNumber PosInfinity \<or> v = JNumber NegInfinity" for v
  proof -
    from bad have "select_pool v cands =
        Inl (Error ''Invalid pool selection: selectedPoolIndex is out of range'')"
      by (rule select_pool_out_of_range)
    then show ?thesis
      by (rule findPoolNode_select_error [OF prep req dexes agg ne nc res])
  qed
  have inv: "\<exists>m. findPoolNode w r st = Inr (st\<lparr>phase := ErrorPhase, error := Some m\<rparr>) \<and>
             take 22 m = ''Invalid pool selection'' \<and>
             selectedPool (st\<lparr>phase := ErrorPhase, error := Some m\<rparr>) = selectedPool st \<and>
             pools (st\<lparr>phase := ErrorPhase, error := Some m\<rparr>) = pools st"
    if res: "resolve_selection r cands = Inr (Index v)"
      and bad: "\<forall>i < length cands. v \<noteq> JNumber (Num (of_nat i))" for v
  proof -
    from bad consider
      "select_pool v cands = Inl (Error ''Invalid pool selection: selectedPoolIndex is out of range'')" |
      "select_pool v cands = Inl (Error ''Invalid pool selection: selectedPool is null'')"
      using select_pool_invalid by blast
    then show ?thesis
    proof cases
      case 1
      from findPoolNode_select_error [OF prep req dexes agg ne nc res 1] show ?thesis
        by (intro exI [of _ "''Invalid pool selection: selectedPoolIndex is out of range''"]) simp
    next
      case 2
      from findPoolNode_select_error [OF prep req dexes agg ne nc res 2] show ?thesis
        by (intro exI [of _ "''Invalid pool selection: selectedPool is null''"]) simp
    qed
  qed
  have cfg: "resolve_selection r cands = Inr (Index (cfg_selectedPoolIndex r))"
    if "cfg_selectedPoolIndex r \<noteq> JUndefined"
    using that by (simp add: resolve_selection_def prior_resolution_def)
  have sus: "findPoolNode w r st = Inl GraphInterrupt"
    if "cfg_selectedPoolIndex r = JUndefined"
      "\<forall>a \<in> set [cfg_interrupt_response r, msg_parsed r, msg_legacy_tool r].
         \<forall>x. a = Some x \<longrightarrow> \<not> cancelled x \<and> \<not> is_number (ans_selectedPoolIndex x)"
      "describe_pools cands = Inr ()" "interrupt_value r = None"
  proof -
    have "resolve_selection r cands = Inl GraphInterrupt"
      using resolve_selection_unanswered [OF that(1,2), of cands] ask_human_suspends [OF that(4,3)]
      by simp
    then show ?thesis
      by (rule findPoolNode_suspends [OF prep req dexes agg ne nc])
  qed
  have acc: "findPoolNode w r st =
             Inr (st\<lparr>phase := ErrorPhase,
                     error := Some ''Invalid pool selection: selectedPoolIndex is out of range''\<rparr>)"
    if "cfg_selectedPoolIndex r = JUndefined"
      "\<forall>a \<in> set [cfg_interrupt_response r, msg_parsed r, msg_legacy_tool r].
         \<forall>x. a = Some x \<longrightarrow> \<not> cancelled x \<and> \<not> is_number (ans_selectedPoolIndex x)"
      "describe_pools cands = Inr ()"
      "interrupt_value r = Some (h # hs)" "response_type h = ''accept''"
      "\<forall>p. response_args h = Some p \<longrightarrow> \<not> is_number (ans_selectedPoolIndex p)" for h hs
  proof -
    have "resolve_selection r cands = Inr (Index JUndefined)"
      using resolve_selection_unanswered [OF that(1,2), of cands]
        ask_human_accept_no_index [OF that(4,5,6,3)]
      by simp
    then show ?thesis by (rule oor) simp
  qed
  show ?thesis
    using oor inv cfg sus acc by blast
qed

theorem invalid_selection_is_error_witness:
  "findPoolNode scenario_world (answer_index 7) scenario_prepared =
     Inr (scenario_prepared\<lparr>phase := ErrorPhase,
            error := Some ''Invalid pool selection: selectedPoolIndex is out of range''\<rparr>) \<and>
   findPoolNode scenario_world (no_answer\<lparr>cfg_selectedPoolIndex := JOther\<rparr>) scenario_prepared =
     Inr (scenario_prepared\<lparr>phase := ErrorPhase,
            error := Some ''Invalid pool selection: selectedPoolIndex is out of range''\<rparr>) \<and>
   (\<exists>m. findPoolNode scenario_world (answer_index (1 / 2)) scenario_prepared =
          Inr (scenario_prepared\<lparr>phase := ErrorPhase, error := Some m\<rparr>) \<and>
        take 22 m = ''Invalid pool selection'') \<and>
   findPoolNode scenario_world
     (no_answer\<lparr>msg_parsed := Some \<lparr>cancelled = False, ans_selectedPoolIndex = JOther\<rparr>\<rparr>)
     scenario_prepared = Inl GraphInterrupt \<and>
   findPoolNode scenario_world
     (no_answer\<lparr>interrupt_value :=
        Some [\<lparr>response_type = ''accept'',
               response_args = Some \<lparr>cancelled = False, ans_selectedPoolIndex = JOther\<rparr>\<rparr>]\<rparr>)
     scenario_prepared =
     Inr (scenario_prepared\<lparr>phase := ErrorPhase,
            error := Some ''Invalid pool selection: selectedPoolIndex is out of range''\<rparr>)"
proof -
  let ?cands = "[pancake_quoted, hyperion_quoted]"
  let ?text = "\<lparr>cancelled = False, ans_selectedPoolIndex = JOther\<rparr>"
  let ?msg = "no_answer\<lparr>msg_parsed := Some ?text\<rparr>"
  let ?h = "\<lparr>response_type = ''accept'', response_args = Some ?text\<rparr>"
  let ?acc = "no_answer\<lparr>interrupt_value := Some [?h]\<rparr>"
  have prep: "preparedTransaction scenario_prepared = Some scenario_prepared_tx"
    and req: "request scenario_prepared = Some scenario_request"
    by (simp_all add: scenario_prepared_def)
  have dexes: "getDexes scenario_world = Inr [hyperion_dex, pancake_dex]"
    by (simp add: scenario_world_def)
  have agg: "aggregate scenario_world scenario_request (swapAmount scenario_prepared_tx)
               [hyperion_dex, pancake_dex] = Inr ?cands"
    using scenario_aggregate by (simp add: scenario_prepared_tx_def)
  have ne: "?cands \<noteq> []"
    by simp
  have nc: "\<not> early_cancelled scenario_prepared r" for r
    by (simp add: early_cancelled_def scenario_prepared_def)
  note C5 = invalid_selection_is_error [OF prep req dexes agg ne nc]
  have res7: "resolve_selection (answer_index 7) ?cands = Inr (Index (JNumber (Num 7)))"
    by code_simp
  have resO: "resolve_selection (no_answer\<lparr>cfg_selectedPoolIndex := JOther\<rparr>) ?cands =
                Inr (Index JOther)"
    by code_simp
  have resH: "resolve_selection (answer_index (1 / 2)) ?cands = Inr (Index (JNumber (Num (1 / 2))))"
    by code_simp
  have a: "findPoolNode scenario_world (answer_index 7) scenario_prepared =
     Inr (scenario_prepared\<lparr>phase := ErrorPhase,
            error := Some ''Invalid pool selection: selectedPoolIndex is out of range''\<rparr>)"
    using C5 [of "answer_index 7"] res7 by simp
  have b: "findPoolNode scenario_world (no_answer\<lparr>cfg_selectedPoolIndex := JOther\<rparr>) scenario_prepared =
     Inr (scenario_prepared\<lparr>phase := ErrorPhase,
            error := Some ''Invalid pool selection: selectedPoolIndex is out of range''\<rparr>)"
    using C5 [of "no_answer\<lparr>cfg_selectedPoolIndex := JOther\<rparr>"] resO by simp
  have half: "\<forall>i < length ?cands. JNumber (Num (1 / 2)) \<noteq> JNumber (Num (of_nat i))"
    by (simp add: less_Suc_eq)
  have c: "\<exists>m. findPoolNode scenario_world (answer_index (1 / 2)) scenario_prepared =
          Inr (scenario_prepared\<lparr>phase := ErrorPhase, error := Some m\<rparr>) \<and>
        take 22 m = ''Invalid pool selection''"
    using C5 [of "answer_index (1 / 2)"] resH half by blast
  have desc: "describe_pools ?cands = Inr ()"
    by code_simp
  have d: "findPoolNode scenario_world ?msg scenario_prepared = Inl GraphInterrupt"
    using C5 [of ?msg] desc by (simp add: no_answer_def)
  have e: "findPoolNode scenario_world ?acc scenario_prepared =
     Inr (scenario_prepared\<lparr>phase := ErrorPhase,
            error := Some ''Invalid pool selection: selectedPoolIndex is out of range''\<rparr>)"
    using C5 [of ?acc] desc by (simp add: no_answer_def)
  from a b c d e show ?thesis by blast
qed

text \<open>
  The claim as worded fails for an answer channel: an answer whose index is not a number,
  here in \<open>config.configurable.interrupt_response\<close>, is passed over, and with nothing to
  resume with the node suspends again; the workflow does not end in the phase \<open>error\<close>.
\<close>

theorem invalid_selection_counterexample:
  "findPoolNode scenario_world
     (no_answer\<lparr>cfg_interrupt_response := Some \<lparr>cancelled = False, ans_selectedPoolIndex = JOther\<rparr>\<rparr>)
     scenario_prepared = Inl GraphInterrupt"
  by code_simp

subsection \<open>Swap preparation\<close>




subsection \<open>Constant-product pricing\<close>



subsection \<open>Totality of the adapters\<close>

lemma Hyperion_findPools_total:
  "\<exists>ps. Hyperion_findPools FP ch params = Inr ps"
  by (simp add: Hyperion_findPools_def split: option.splits sum.splits)

lemma Hyperion_findPools_try_empty:
  assumes "\<forall>s. case hyperion_view_pools ch s of
                  Inl _ \<Rightarrow> True
                | Inr raw \<Rightarrow> \<forall>p \<in> set raw. \<not> Hyperion_isMatch params p"
  shows "Hyperion_findPools_try ch params f = Inr [] \<or> (\<exists>e. Hyperion_findPools_try ch params f = Inl e)"
proof -
  have "filter (Hyperion_isMatch params) raw = []"
    if "hyperion_view_pools ch s = Inr raw" for s raw
    using assms [rule_format, of s] that by (simp add: filter_empty_conv)
  then show ?thesis
    by (auto simp: Hyperion_findPools_try_def Let_def split: option.splits sum.splits)
qed

lemma Hyperion_findPools_empty:
  assumes "\<forall>s. case hyperion_view_pools ch s of
                  Inl _ \<Rightarrow> True
                | Inr raw \<Rightarrow> \<forall>p \<in> set raw. \<not> Hyperion_isMatch params p"
  shows "Hyperion_findPools FP ch params = Inr []"
proof (cases "find (\<lambda>f. functionType f = FP \<and> isActive f) (dex_functions (ps_dex params))")
  case None
  then show ?thesis by (simp add: Hyperion_findPools_def)
next
  case (Some f)
  from Hyperion_findPools_try_empty [OF assms, of f] show ?thesis
    using Some by (auto simp: Hyperion_findPools_def)
qed

lemma Pancake_estimate_total:
  "\<exists>r. Pancake_estimateAmountOut ch pool a = Inr r \<and>
       ((\<exists>e. Pancake_estimate_try ch pool a = Inl e) \<longrightarrow>
          est_estimatedOutput r = of_int \<lfloor>a * (9 / 10)\<rfloor>)"
  by (auto simp: Pancake_estimateAmountOut_def Math_floor_def Let_def split: sum.splits)

lemma Pancake_estimate_try_no_reserves:
  assumes "\<forall>x y z. \<exists>e. pancake_getReserves ch x y z = Inl e"
  shows "(\<exists>e. Pancake_estimate_try ch pool a = Inl e) \<or>
         (\<exists>r. Pancake_estimate_try ch pool a = Inr r \<and>
              est_estimatedOutput r = of_int \<lfloor>a * (9 / 10)\<rfloor>)"
proof -
  have "\<exists>e. bind_exn (pancake_getReserves ch x y z) f = Inl e"
    for x y z and f :: "rat \<times> rat \<Rightarrow> exn + rat"
    using assms [rule_format, of x y z] by (auto simp: bind_exn_def)
  then have fails: "\<exists>e. bind_exn (bind_exn (pancake_getReserves ch x y z) f) g = Inl e"
    for x y z and f :: "rat \<times> rat \<Rightarrow> exn + rat" and g :: "rat \<Rightarrow> exn + AmountEstimation"
    by (metis bind_exn_def sum.case(1))
  show ?thesis
    unfolding Pancake_estimate_try_def Let_def
    using fails by (auto simp: Math_floor_def bind_exn_def split: option.splits)
qed

text \<open>
  C8, as amended. For every pair request the single-pool adapter's \<open>findPools\<close> returns a
  list and never throws; the list is empty when no active find-pools function is registered
  and when, whatever function is called, the pool-list lookup fails or lists no pool of the
  requested pair. For every pool and input amount the path-routed adapter's
  \<open>estimateAmountOut\<close> returns an estimate and never throws; whenever the body of its
  \<open>try\<close> block fails, and in particular whenever the reserve lookups fail, the estimated
  output is \<open>floor(amountIn * 0.9)\<close>.
\<close>

theorem adapters_total:
  "(\<exists>ps. Hyperion_findPools FIND_POOLS ch params = Inr ps) \<and>
   (find (\<lambda>f. functionType f = FIND_POOLS \<and> isActive f) (dex_functions (ps_dex params)) = None \<longrightarrow>
      Hyperion_findPools FIND_POOLS ch params = Inr []) \<and>
   ((\<forall>s. case hyperion_view_pools ch s of
            Inl _ \<Rightarrow> True
          | Inr raw \<Rightarrow> \<forall>p \<in> set raw. \<not> Hyperion_isMatch params p) \<longrightarrow>
      Hyperion_findPools FIND_POOLS ch params = Inr []) \<and>
   (\<exists>r. Pancake_estimateAmountOut ch pool a = Inr r \<and>
        ((\<exists>e. Pancake_estimate_try ch pool a = Inl e) \<longrightarrow>
           est_estimatedOutput r = of_int \<lfloor>a * (9 / 10)\<rfloor>)) \<and>
   ((\<forall>x y z. \<exists>e. pancake_getReserves ch x y z = Inl e) \<longrightarrow>
      (\<exists>r. Pancake_estimateAmountOut ch pool a = Inr r \<and>
           est_estimatedOutput r = of_int \<lfloor>a * (9 / 10)\<rfloor>))"
proof (intro conjI impI)
  show "\<exists>ps. Hyperion_findPools FIND_POOLS ch params = Inr ps"
    by (rule Hyperion_findPools_total)
  show "Hyperion_findPools FIND_POOLS ch params = Inr []"
    if "find (\<lambda>f. functionType f = FIND_POOLS \<and> isActive f) (dex_functions (ps_dex params)) = None"
    using that by (simp add: Hyperion_findPools_def)
  show "Hyperion_findPools FIND_POOLS ch params = Inr []"
    if "\<forall>s. case hyperion_view_pools ch s of
            Inl _ \<Rightarrow> True
          | Inr raw \<Rightarrow> \<forall>p \<in> set raw. \<not> Hyperion_isMatch params p"
    using that by (rule Hyperion_findPools_empty)
  show "\<exists>r. Pancake_estimateAmountOut ch pool a = Inr r \<and>
        ((\<exists>e. Pancake_estimate_try ch pool a = Inl e) \<longrightarrow>
           est_estimatedOutput r = of_int \<lfloor>a * (9 / 10)\<rfloor>)"
    by (rule Pancake_estimate_total)
  show "\<exists>r. Pancake_estimateAmountOut ch pool a = Inr r \<and>
           est_estimatedOutput r = of_int \<lfloor>a * (9 / 10)\<rfloor>"
    if "\<forall>x y z. \<exists>e. pancake_getReserves ch x y z = Inl e"
    using Pancake_estimate_try_no_reserves [OF that, of pool a] Pancake_estimate_total [of ch pool a]
    by (auto simp: Pancake_estimateAmountOut_def)
qed

theorem adapters_total_witness:
  "Hyperion_findPools ''FIND_POOLS''
     (scenario_chain\<lparr>hyperion_view_pools := (\<lambda>_. Inl (Error ''network down''))\<rparr>)
     (findPools_params scenario_request hyperion_dex) = Inr [] \<and>
   Hyperion_findPools ''FIND_POOLS'' scenario_chain
     (findPools_params scenario_request hyperion_dex) = Inr [] \<and>
   (\<exists>r. Pancake_estimateAmountOut quote_failing_chain pancake_pool 1000 = Inr r \<and>
        est_estimatedOutput r = 900)"
proof -
  let ?params = "findPools_params scenario_request hyperion_dex"
  let ?down = "scenario_chain\<lparr>hyperion_view_pools := (\<lambda>_. Inl (Error ''network down''))\<rparr>"
  have a: "Hyperion_findPools ''FIND_POOLS'' ?down ?params = Inr []"
    using adapters_total [of "''FIND_POOLS''" ?down ?params pancake_pool 1000]
    by simp
  have b: "Hyperion_findPools ''FIND_POOLS'' scenario_chain ?params = Inr []"
    using adapters_total [of "''FIND_POOLS''" scenario_chain ?params pancake_pool 1000]
    by (simp add: scenario_chain_def)
  have fl: "rat_of_int \<lfloor>1000 * (9 / 10 :: rat)\<rfloor> = 900"
    by simp
  have c: "\<exists>r. Pancake_estimateAmountOut quote_failing_chain pancake_pool 1000 = Inr r \<and>
        est_estimatedOutput r = 900"
    using adapters_total [of "''FIND_POOLS''" quote_failing_chain ?params pancake_pool 1000]
    unfolding fl by (simp add: quote_failing_chain_def)
  from a b c show ?thesis by blast
qed

text \<open>
  A failing quote lookup does not empty the single-pool adapter's list: the pool is kept
  with the fallback quote \<open>floor(1000000 * 0.9)\<close> of its own \<open>estimateAmountOut\<close>.
\<close>

theorem adapters_total_counterexample:
  "map_sum message (map est0)
     (Hyperion_findPools ''FIND_POOLS'' quote_failing_chain
        (findPools_params scenario_request hyperion_dex)) = Inr [900000] \<and>
   Hyperion_findPools ''FIND_POOLS'' quote_failing_chain
     (findPools_params scenario_request hyperion_dex) \<noteq> Inr []"
  by code_simp

subsection \<open>Adapter order\<close>

lemma mset_collect_pools:
  assumes "mset dexes' = mset dexes"
  shows "mset (collect_pools w req dexes') = mset (collect_pools w req dexes)"
proof -
  have "mset (collect_pools w req ds) =
          sum_mset (image_mset (\<lambda>d. mset (adapter_pools w req d)) (mset ds))" for ds
    by (induction ds) (simp_all add: collect_pools_def)
  then show ?thesis using assms by simp
qed

lemma filter_exn_ok:
  "\<forall>x \<in> set xs. \<exists>b. P x = Inr b \<Longrightarrow> filter_exn P xs = Inr (filter (\<lambda>x. P x = Inr True) xs)"
  by (induction xs) auto

lemma filter_exn_err:
  "\<exists>x \<in> set xs. P x = Inl E \<Longrightarrow> \<forall>x e. P x = Inl e \<longrightarrow> e = E \<Longrightarrow> filter_exn P xs = Inl E"
proof (induction xs)
  case Nil
  then show ?case by simp
next
  case (Cons x xs)
  show ?case
  proof (cases "P x")
    case (Inl e)
    with Cons.prems(2) have "e = E" by blast
    with Inl show ?thesis by simp
  next
    case (Inr b)
    with Cons.prems(1) have "\<exists>x \<in> set xs. P x = Inl E" by auto
    then have "filter_exn P xs = Inl E" using Cons.prems(2) by (rule Cons.IH)
    with Inr show ?thesis by simp
  qed
qed

lemma filter_exn_perm:
  assumes m: "mset xs = mset ys" and u: "\<forall>x e. P x = Inl e \<longrightarrow> e = E"
  shows "(filter_exn P xs = Inl E \<and> filter_exn P ys = Inl E) \<or>
         (\<exists>fx fy. filter_exn P xs = Inr fx \<and> filter_exn P ys = Inr fy \<and> mset fx = mset fy \<and>
                   set fx \<subseteq> set xs)"
proof (cases "\<exists>x \<in> set xs. P x = Inl E")
  case True
  moreover from m have "set xs = set ys" by (rule mset_eq_setD)
  ultimately have "\<exists>x \<in> set ys. P x = Inl E" by simp
  with True u show ?thesis by (simp add: filter_exn_err)
next
  case False
  from m have s: "set xs = set ys" by (rule mset_eq_setD)
  have okx: "\<forall>x \<in> set xs. \<exists>b. P x = Inr b"
  proof
    fix x assume "x \<in> set xs"
    with False u show "\<exists>b. P x = Inr b" by (cases "P x") auto
  qed
  then have oky: "\<forall>x \<in> set ys. \<exists>b. P x = Inr b" using s by simp
  have "mset (filter (\<lambda>x. P x = Inr True) xs) = mset (filter (\<lambda>x. P x = Inr True) ys)"
    using m by simp
  then show ?thesis
    using filter_exn_ok [OF okx] filter_exn_ok [OF oky] by auto
qed

lemma pool_token_error:
  "pool_tokenA p = Inl e \<Longrightarrow> e = TypeError ''toLowerCase is not a function''"
  "pool_tokenB p = Inl e \<Longrightarrow> e = TypeError ''toLowerCase is not a function''"
proof -
  have "ref_toLowerCase v = Inl e \<Longrightarrow> e = TypeError ''toLowerCase is not a function''" for v
    by (cases v) auto
  then show "pool_tokenA p = Inl e \<Longrightarrow> e = TypeError ''toLowerCase is not a function''"
    "pool_tokenB p = Inl e \<Longrightarrow> e = TypeError ''toLowerCase is not a function''"
    unfolding pool_tokenA_def pool_tokenB_def by blast+
qed

lemma strict_match_error:
  "strict_match req p = Inl e \<Longrightarrow> e = TypeError ''toLowerCase is not a function''"
  using pool_token_error [of p]
  by (auto simp: strict_match_def bind_exn_def Let_def split: sum.splits if_splits)

lemma partial_match_error:
  "partial_match req p = Inl e \<Longrightarrow> e = TypeError ''toLowerCase is not a function''"
  using pool_token_error [of p]
  by (auto simp: partial_match_def bind_exn_def Let_def split: sum.splits)

lemma filter_pools_perm:
  assumes m: "mset xs = mset ys"
  shows "(\<exists>e. filter_pools req xs = Inl e \<and> filter_pools req ys = Inl e) \<or>
         (\<exists>fx fy. filter_pools req xs = Inr fx \<and> filter_pools req ys = Inr fy \<and>
                   mset fx = mset fy \<and> set fx \<subseteq> set xs)"
proof -
  let ?E = "TypeError ''toLowerCase is not a function''"
  have us: "\<forall>x e. strict_match req x = Inl e \<longrightarrow> e = ?E"
    using strict_match_error by blast
  have up: "\<forall>x e. partial_match req x = Inl e \<longrightarrow> e = ?E"
    using partial_match_error by blast
  from filter_exn_perm [OF m us] show ?thesis
  proof
    assume "filter_exn (strict_match req) xs = Inl ?E \<and> filter_exn (strict_match req) ys = Inl ?E"
    then show ?thesis by (simp add: filter_pools_def bind_exn_def)
  next
    assume "\<exists>fx fy. filter_exn (strict_match req) xs = Inr fx \<and>
                    filter_exn (strict_match req) ys = Inr fy \<and> mset fx = mset fy \<and>
                    set fx \<subseteq> set xs"
    then obtain fx fy where
      f: "filter_exn (strict_match req) xs = Inr fx" "filter_exn (strict_match req) ys = Inr fy"
         "mset fx = mset fy" "set fx \<subseteq> set xs"
      by blast
    show ?thesis
    proof (cases "fx = []")
      case False
      with f(3) have "fy \<noteq> []" by auto
      with False f show ?thesis by (simp add: filter_pools_def bind_exn_def)
    next
      case True
      with f(3) have fy: "fy = []" by simp
      from filter_exn_perm [OF m up] show ?thesis
      proof
        assume "filter_exn (partial_match req) xs = Inl ?E \<and>
                filter_exn (partial_match req) ys = Inl ?E"
        with f True fy show ?thesis by (simp add: filter_pools_def bind_exn_def)
      next
        assume "\<exists>fx fy. filter_exn (partial_match req) xs = Inr fx \<and>
                    filter_exn (partial_match req) ys = Inr fy \<and> mset fx = mset fy \<and>
                    set fx \<subseteq> set xs"
        with f True fy show ?thesis by (auto simp: filter_pools_def bind_exn_def)
      qed
    qed
  qed
qed

lemma rank_pools_perm:
  assumes m: "mset xs = mset ys"
    and inj: "inj_on est0 {q \<in> set xs. 0 < est0 q}"
  shows "rank_pools xs = rank_pools ys"
proof -
  let ?f = "\<lambda>pool. - est0 pool"
  let ?px = "filter (\<lambda>pool. 0 < est0 pool) xs"
  let ?py = "filter (\<lambda>pool. 0 < est0 pool) ys"
  have mp: "mset ?px = mset ?py" using m by simp
  have "mset ?px = mset (sort_key ?f ?py)" using mp by simp
  moreover have "inj_on ?f (set ?px)"
    using inj by (auto simp: inj_on_def)
  moreover have "sorted (map ?f (sort_key ?f ?py))" by (rule sorted_sort_key)
  ultimately have "sort_key ?f ?px = sort_key ?f ?py"
    by (rule sort_key_inj_key_eq)
  then show ?thesis by (simp add: rank_pools_def)
qed

text \<open>
  C9, as amended. When no two different pools that survive the token-pair filter get the
  same positive quote, the ranked candidate list (its members and their order) is the same
  for every order in which the catalogue lists the adapters.
\<close>

theorem aggregation_order_independent:
  assumes perm: "mset dexes' = mset dexes"
    and distinct_quotes:
      "\<forall>filtered. filter_pools req (collect_pools w req dexes) = Inr filtered \<longrightarrow>
         inj_on est0
           {q \<in> quote_pool (the_chain w) (slippageValue req) amt ` set filtered. 0 < est0 q}"
  shows "aggregate w req amt dexes' = aggregate w req amt dexes"
proof -
  let ?q = "quote_pool (the_chain w) (slippageValue req) amt"
  have m: "mset (collect_pools w req dexes) = mset (collect_pools w req dexes')"
    using mset_collect_pools [OF perm, of w req] by simp
  from filter_pools_perm [OF m, of req] show ?thesis
  proof
    assume "\<exists>e. filter_pools req (collect_pools w req dexes) = Inl e \<and>
                filter_pools req (collect_pools w req dexes') = Inl e"
    then show ?thesis by (auto simp: aggregate_def bind_exn_def)
  next
    assume "\<exists>fx fy. filter_pools req (collect_pools w req dexes) = Inr fx \<and>
                    filter_pools req (collect_pools w req dexes') = Inr fy \<and>
                    mset fx = mset fy \<and> set fx \<subseteq> set (collect_pools w req dexes)"
    then obtain fx fy where
      f: "filter_pools req (collect_pools w req dexes) = Inr fx"
         "filter_pools req (collect_pools w req dexes') = Inr fy"
         "mset fx = mset fy" "set fx \<subseteq> set (collect_pools w req dexes)"
      by blast
    have mq: "mset (map ?q fx) = mset (map ?q fy)" using f(3) by simp
    from distinct_quotes f(1) have "inj_on est0 {q \<in> set (map ?q fx). 0 < est0 q}"
      by simp
    with mq have "rank_pools (map ?q fx) = rank_pools (map ?q fy)"
      by (rule rank_pools_perm)
    with f show ?thesis by (simp add: aggregate_def bind_exn_def quote_pools_def)
  qed
qed

theorem aggregation_order_independent_witness:
  "aggregate scenario_world scenario_request 1000000000 [pancake_dex, hyperion_dex] =
     aggregate scenario_world scenario_request 1000000000 [hyperion_dex, pancake_dex] \<and>
   aggregate scenario_world scenario_request 1000000000 [pancake_dex, hyperion_dex] =
     Inr [pancake_quoted, hyperion_quoted]"
proof -
  let ?q = "quote_pool (the_chain scenario_world) (slippageValue scenario_request) 1000000000"
  have perm: "mset [pancake_dex, hyperion_dex] = mset [hyperion_dex, pancake_dex]"
    by simp
  have q: "?q hyperion_pool = hyperion_quoted" "?q pancake_pool = pancake_quoted"
    by code_simp+
  have e: "est0 hyperion_quoted = 900000" "est0 pancake_quoted = 950000"
    by code_simp+
  have inj: "\<forall>filtered.
      filter_pools scenario_request
        (collect_pools scenario_world scenario_request [hyperion_dex, pancake_dex]) = Inr filtered \<longrightarrow>
      inj_on est0 {q \<in> ?q ` set filtered. 0 < est0 q}"
    unfolding scenario_filtered by (auto simp: inj_on_def q e)
  have "aggregate scenario_world scenario_request 1000000000 [pancake_dex, hyperion_dex] =
     aggregate scenario_world scenario_request 1000000000 [hyperion_dex, pancake_dex]"
    using perm inj by (rule aggregation_order_independent)
  moreover have "aggregate scenario_world scenario_request 1000000000 [hyperion_dex, pancake_dex] =
     Inr [pancake_quoted, hyperion_quoted]"
    by code_simp
  ultimately show ?thesis by simp
qed

text \<open>
  With a tie the order of the adapters shows: two pools quoted at 900000 are ranked in the
  order in which their adapters were queried, since the sort is stable and compares the
  estimates only.
\<close>

theorem aggregation_order_counterexample:
  "aggregate tie_world scenario_request 1000000000 [hyperion_dex, pancake_dex] =
     Inr [hyperion_quoted, pancake_tied] \<and>
   aggregate tie_world scenario_request 1000000000 [pancake_dex, hyperion_dex] =
     Inr [pancake_tied, hyperion_quoted] \<and>
   aggregate tie_world scenario_request 1000000000 [hyperion_dex, pancake_dex] \<noteq>
   aggregate tie_world scenario_request 1000000000 [pancake_dex, hyperion_dex]"
  by code_simp

subsection \<open>The transfer balance check\<close>

text \<open>
  C10. In the transfer workflow's preparing phase, once the identity, the addresses, the
  wallet and the balance row are in order, the insufficient-balance error is thrown exactly
  when \<open>parseFloat(amount)\<close> exceeds the raw balance (in smallest units); otherwise the
  preparation goes on to build and simulate the transfer of \<open>amount * 10 ^ decimals\<close>, which
  is never compared with the balance, and reaches the confirming phase whenever that
  simulation succeeds.
\<close>

theorem transfer_balance_check:
  assumes uid: "t_userId w \<noteq> None" "t_userId w \<noteq> Some 0"
    and addr: "toAddress (t_request st) \<noteq> []"
    and amt: "tr_amount (t_request st) \<noteq> []"
    and acct: "t_checked_account w = Inr account"
    and coins: "t_getAccountCoinsData w (transfer_assetType (t_request st)) = Inr (tokenData' # rest)"
    and bal: "amount tokenData' = Some rawBalance" "rawBalance \<noteq> 0"
  shows
    "((\<exists>a. t_parseFloat w (tr_amount (t_request st)) = Some a \<and> a > of_int rawBalance) \<longrightarrow>
        prepareTransfer_try w st = Inl (Error ''Insufficient balance.'')) \<and>
     (\<not> (\<exists>a. t_parseFloat w (tr_amount (t_request st)) = Some a \<and> a > of_int rawBalance) \<longrightarrow>
        prepareTransfer_try w st =
          (let decimals' = (case decimals tokenData' of
                              None \<Rightarrow> getTokenDecimals (transfer_assetType (t_request st))
                            | Some d \<Rightarrow> d);
               transferAmount' =
                 map_option (\<lambda>a. a * 10 ^ decimals') (t_parseFloat w (tr_amount (t_request st)))
           in case t_build_sim w (transfer_assetType (t_request st)) transferAmount'
                     (case token_standard tokenData' of
                        None \<Rightarrow> ''v1'' | Some std \<Rightarrow> if std = [] then ''v1'' else std) of
                Inl e \<Rightarrow> Inl e
              | Inr simulationResult \<Rightarrow>
                  Inr (st\<lparr>t_phase := TConfirming,
                          t_preparedTransaction :=
                            Some \<lparr>transferAmount = transferAmount',
                                  tp_accountAddress = account,
                                  tp_decimals = decimals',
                                  tp_tokenData = tokenData',
                                  tp_gasEstimation = transferGasEstimation simulationResult,
                                  tp_assetType = transfer_assetType (t_request st)\<rparr>\<rparr>)))"
  using assms
  by (auto simp: prepareTransfer_try_def prepare_checked_def bind_exn_def Let_def
      split: option.splits sum.splits)

theorem transfer_balance_check_witness:
  "prepareTransfer_try scenario_tworld (initiateTransfer (scenario_transfer\<lparr>tr_amount := ''50''\<rparr>)) =
     Inl (Error ''Insufficient balance.'') \<and>
   prepareTransfer_try scenario_tworld (initiateTransfer scenario_transfer) =
     Inr ((initiateTransfer scenario_transfer)
           \<lparr>t_phase := TConfirming,
            t_preparedTransaction :=
              Some \<lparr>transferAmount = Some 500000000,
                    tp_accountAddress = ''0xuser'',
                    tp_decimals = 8,
                    tp_tokenData = \<lparr>amount = Some 10, decimals = Some 8, token_standard = Some ''v1''\<rparr>,
                    tp_gasEstimation = \<lparr>totalGasCostInAPT = 1 / 2000, maxGasCostInAPT = 1 / 50\<rparr>,
                    tp_assetType = ''0x1::aptos_coin::AptosCoin''\<rparr>\<rparr>)"
proof -
  let ?td = "\<lparr>amount = Some 10, decimals = Some 8, token_standard = Some ''v1''\<rparr>"
  have uid: "t_userId scenario_tworld \<noteq> None" "t_userId scenario_tworld \<noteq> Some 0"
    by (simp_all add: scenario_tworld_def)
  have addr: "toAddress (t_request (initiateTransfer (scenario_transfer\<lparr>tr_amount := x\<rparr>))) \<noteq> []" for x
    by (simp add: initiateTransfer_def scenario_transfer_def)
  have amt: "tr_amount (t_request (initiateTransfer (scenario_transfer\<lparr>tr_amount := ''50''\<rparr>))) \<noteq> []"
    "tr_amount (t_request (initiateTransfer (scenario_transfer\<lparr>tr_amount := ''5''\<rparr>))) \<noteq> []"
    by (simp_all add: initiateTransfer_def)
  have acct: "t_checked_account scenario_tworld = Inr ''0xuser''"
    by code_simp
  have coins: "t_getAccountCoinsData scenario_tworld
                 (transfer_assetType (t_request (initiateTransfer (scenario_transfer\<lparr>tr_amount := x\<rparr>)))) =
               Inr (?td # [])" for x
    by (simp add: scenario_tworld_def)
  have bal: "amount ?td = Some 10" "(10 :: int) \<noteq> 0"
    by simp_all
  have same: "scenario_transfer\<lparr>tr_amount := ''5''\<rparr> = scenario_transfer"
    by (simp add: scenario_transfer_def)
  have high: "prepareTransfer_try scenario_tworld
                (initiateTransfer (scenario_transfer\<lparr>tr_amount := ''50''\<rparr>)) =
              Inl (Error ''Insufficient balance.'')"
    using transfer_balance_check [OF uid addr amt(1) acct coins bal]
    by (simp add: scenario_tworld_def initiateTransfer_def)
  have low: "prepareTransfer_try scenario_tworld
                (initiateTransfer (scenario_transfer\<lparr>tr_amount := ''5''\<rparr>)) =
     Inr ((initiateTransfer (scenario_transfer\<lparr>tr_amount := ''5''\<rparr>))
           \<lparr>t_phase := TConfirming,
            t_preparedTransaction :=
              Some \<lparr>transferAmount = Some 500000000,
                    tp_accountAddress = ''0xuser'',
                    tp_decimals = 8,
                    tp_tokenData = ?td,
                    tp_gasEstimation = \<lparr>totalGasCostInAPT = 1 / 2000, maxGasCostInAPT = 1 / 50\<rparr>,
                    tp_assetType = ''0x1::aptos_coin::AptosCoin''\<rparr>\<rparr>)"
    using transfer_balance_check [OF uid addr amt(2) acct coins bal]
    by (simp add: scenario_tworld_def initiateTransfer_def scenario_transfer_def
        transfer_assetType_def falsy_str_def transferGasEstimation_def scenario_simulation_def)
  from high low show ?thesis unfolding same by (rule conjI)
qed

end
